theory Spec2Isabelle
  imports Complex_Main "HOL-Library.AList"
begin

section \<open>Text primitives\<close>

text \<open>
  Python \<open>str\<close> values are modelled as \<open>string\<close> (a list of characters). The model
  covers ASCII text: \<open>lower\<close>, \<open>\s\<close>, \<open>\d\<close> and \<open>\w\<close> are the ASCII
  restrictions of Python's Unicode-aware operations. Floats are modelled as exact
  rationals.
\<close>

definition is_space :: "char \<Rightarrow> bool" where
  \<comment> \<open>\<open>str.isspace\<close> / regex \<open>\s\<close> on ASCII: TAB, LF, VT, FF, CR, FS, GS, RS, US, space.\<close>
  "is_space c = (c \<in> set [CHR 0x09, CHR 0x0A, CHR 0x0B, CHR 0x0C, CHR 0x0D,
                            CHR 0x1C, CHR 0x1D, CHR 0x1E, CHR 0x1F, CHR 0x20])"

definition upper_letters :: string where
  "upper_letters = ''ABCDEFGHIJKLMNOPQRSTUVWXYZ''"

definition lower_letters :: string where
  "lower_letters = ''abcdefghijklmnopqrstuvwxyz''"

definition digits :: string where
  "digits = ''0123456789''"

definition is_upper :: "char \<Rightarrow> bool" where
  \<comment> \<open>regex \<open>[A-Z]\<close>\<close>
  "is_upper c = (c \<in> set upper_letters)"

definition is_lower :: "char \<Rightarrow> bool" where
  \<comment> \<open>regex \<open>[a-z]\<close>\<close>
  "is_lower c = (c \<in> set lower_letters)"

definition is_digit :: "char \<Rightarrow> bool" where
  \<comment> \<open>regex \<open>\d\<close>\<close>
  "is_digit c = (c \<in> set digits)"

definition is_word :: "char \<Rightarrow> bool" where
  \<comment> \<open>regex \<open>\w\<close>\<close>
  "is_word c = (is_upper c \<or> is_lower c \<or> is_digit c \<or> c = CHR ''_'')"

definition lower_char :: "char \<Rightarrow> char" where
  "lower_char c = (case map_of (zip upper_letters lower_letters) c of Some d \<Rightarrow> d | None \<Rightarrow> c)"

definition upper_char :: "char \<Rightarrow> char" where
  "upper_char c = (case map_of (zip lower_letters upper_letters) c of Some d \<Rightarrow> d | None \<Rightarrow> c)"

definition lower :: "string \<Rightarrow> string" where
  \<comment> \<open>\<open>str.lower()\<close>\<close>
  "lower s = map lower_char s"

definition upper :: "string \<Rightarrow> string" where
  \<comment> \<open>\<open>str.upper()\<close>\<close>
  "upper s = map upper_char s"

definition strip :: "string \<Rightarrow> string" where
  \<comment> \<open>\<open>str.strip()\<close>\<close>
  "strip s = rev (dropWhile is_space (rev (dropWhile is_space s)))"

fun starts_with :: "string \<Rightarrow> string \<Rightarrow> bool" where
  \<comment> \<open>\<open>starts_with p s\<close>: \<open>s.startswith(p)\<close>\<close>
  "starts_with [] s = True"
| "starts_with (x # xs) [] = False"
| "starts_with (x # xs) (y # ys) = (x = y \<and> starts_with xs ys)"

fun str_in :: "string \<Rightarrow> string \<Rightarrow> bool" where
  \<comment> \<open>\<open>str_in p s\<close>: Python's \<open>p in s\<close> on strings\<close>
  "str_in p [] = (p = [])"
| "str_in p (y # ys) = (starts_with p (y # ys) \<or> str_in p ys)"

fun join :: "string \<Rightarrow> string list \<Rightarrow> string" where
  \<comment> \<open>\<open>sep.join(parts)\<close>\<close>
  "join sep [] = []"
| "join sep (x # xs) = x @ concat (map (\<lambda>y. sep @ y) xs)"

fun str_nat :: "nat \<Rightarrow> string" where
  \<comment> \<open>\<open>str(n)\<close> for a natural number\<close>
  "str_nat n = (if n < 10 then [digits ! n] else str_nat (n div 10) @ [digits ! (n mod 10)])"

definition digit_val :: "char \<Rightarrow> nat" where
  "digit_val c = (case map_of (zip digits [0..<10]) c of Some d \<Rightarrow> d | None \<Rightarrow> 0)"

definition int_of_str :: "string \<Rightarrow> nat" where
  \<comment> \<open>\<open>int(s)\<close> for a non-empty string of digits\<close>
  "int_of_str s = fold (\<lambda>c n. 10 * n + digit_val c) s 0"

definition push :: "char \<Rightarrow> string list \<Rightarrow> string list" where
  \<comment> \<open>puts a character in front of the first piece of a split\<close>
  "push c pieces = (case pieces of [] \<Rightarrow> [[c]] | p # ps \<Rightarrow> (c # p) # ps)"

fun split_char :: "char \<Rightarrow> string \<Rightarrow> string list" where
  \<comment> \<open>\<open>s.split(c)\<close> for a one-character separator\<close>
  "split_char c [] = [[]]"
| "split_char c (x # xs) = (if x = c then [] # split_char c xs else push x (split_char c xs))"

fun str_le :: "string \<Rightarrow> string \<Rightarrow> bool" where
  \<comment> \<open>lexicographic order of strings by character code\<close>
  "str_le [] ys = True"
| "str_le (x # xs) [] = False"
| "str_le (x # xs) (y # ys) = ((of_char x :: nat) < of_char y \<or> (x = y \<and> str_le xs ys))"

subsection \<open>The regular expressions of the services, as scanners\<close>

definition match_citation :: "string \<Rightarrow> (string \<times> string) option" where
  \<comment> \<open>\<open>\[(\d+)\]\<close> matched at the start of the string: the digits and what follows the match\<close>
  "match_citation s =
     (case s of
        [] \<Rightarrow> None
      | c # t \<Rightarrow>
          if c = CHR ''[''
          then (let ds = takeWhile is_digit t; r = dropWhile is_digit t
                in case r of
                     [] \<Rightarrow> None
                   | d # r' \<Rightarrow> if ds \<noteq> [] \<and> d = CHR '']'' then Some (ds, r') else None)
          else None)"

lemma match_citation_shorter:
  "match_citation s = Some (ds, r) \<Longrightarrow> length r < length s"
proof -
  have "length (dropWhile is_digit t) \<le> length t" for t
    by (rule length_dropWhile_le)
  then have "dropWhile is_digit t = d # r' \<Longrightarrow> length r' < Suc (length t)" for t d r'
    by (metis le_imp_less_Suc length_Cons less_Suc_eq order_less_trans lessI)
  then show "match_citation s = Some (ds, r) \<Longrightarrow> length r < length s"
    by (auto simp: match_citation_def Let_def split: list.splits if_splits)
qed

function findall_citations :: "string \<Rightarrow> string list" where
  \<comment> \<open>\<open>re.findall(r'\[(\d+)\]', s)\<close>\<close>
  "findall_citations [] = []"
| "findall_citations (c # t) =
     (case match_citation (c # t) of
        Some (ds, r) \<Rightarrow> ds # findall_citations r
      | None \<Rightarrow> findall_citations t)"
  by pat_completeness auto
termination
  by (relation "measure length") (auto dest: match_citation_shorter)

function sub_citations :: "string \<Rightarrow> string" where
  \<comment> \<open>\<open>re.sub(r'\[\d+\]', '', s)\<close>\<close>
  "sub_citations [] = []"
| "sub_citations (c # t) =
     (case match_citation (c # t) of
        Some (ds, r) \<Rightarrow> sub_citations r
      | None \<Rightarrow> c # sub_citations t)"
  by pat_completeness auto
termination
  by (relation "measure length") (auto dest: match_citation_shorter)

fun search_citation :: "string \<Rightarrow> bool" where
  \<comment> \<open>\<open>re.search(r'\[\d+\]', s)\<close> finds a match\<close>
  "search_citation [] = False"
| "search_citation (c # t) = (match_citation (c # t) \<noteq> None \<or> search_citation t)"

function findall_words :: "string \<Rightarrow> string list" where
  \<comment> \<open>\<open>re.findall(r'\b\w+\b', s)\<close>: the maximal runs of word characters\<close>
  "findall_words s =
     (case dropWhile (\<lambda>c. \<not> is_word c) s of
        [] \<Rightarrow> []
      | c # t \<Rightarrow> (c # takeWhile is_word t) # findall_words (dropWhile is_word t))"
  by pat_completeness auto
termination
proof (relation "measure length")
  fix s :: string and c t
  assume a: "dropWhile (\<lambda>c. \<not> is_word c) s = c # t"
  have "length (dropWhile is_word t) \<le> length t"
    by (rule length_dropWhile_le)
  moreover have "length (c # t) \<le> length s"
    using a length_dropWhile_le [of "\<lambda>c. \<not> is_word c" s] by simp
  ultimately show "(dropWhile is_word t, s) \<in> measure length"
    by simp
qed simp

definition punct :: "char \<Rightarrow> bool" where
  \<comment> \<open>regex \<open>[.!?]\<close>\<close>
  "punct c = (c = CHR ''.'' \<or> c = CHR ''!'' \<or> c = CHR ''?'')"

definition lookbehind_ok :: "string \<Rightarrow> bool" where
  \<comment> \<open>the three lookbehinds of \<open>_split_sentences\<close>,
      \<open>(?<!\w\.\w.)(?<![A-Z][a-z]\.)(?<=\.|\?|\!)\<close>, on the text before the position,
      most recent character first\<close>
  "lookbehind_ok prev =
     ((case prev of [] \<Rightarrow> False | p1 # _ \<Rightarrow> punct p1)
      \<and> \<not> (case prev of
               p1 # p2 # p3 # p4 # _ \<Rightarrow>
                 is_word p4 \<and> p3 = CHR ''.'' \<and> is_word p2 \<and> p1 \<noteq> CHR 0x0A
             | _ \<Rightarrow> False)
      \<and> \<not> (case prev of
               p1 # p2 # p3 # _ \<Rightarrow> is_upper p3 \<and> is_lower p2 \<and> p1 = CHR ''.''
             | _ \<Rightarrow> False))"

fun mark_breaks :: "string \<Rightarrow> string \<Rightarrow> string" where
  \<comment> \<open>the \<open>re.sub\<close> of \<open>_split_sentences\<close>: each white-space character after which the
      lookbehinds hold becomes a newline\<close>
  "mark_breaks prev [] = []"
| "mark_breaks prev (c # t) =
     (if is_space c \<and> lookbehind_ok prev then CHR 0x0A else c) # mark_breaks (c # prev) t"

definition after_last_newline :: "string \<Rightarrow> string" where
  "after_last_newline ws = rev (takeWhile (\<lambda>c. c \<noteq> CHR 0x0A) (rev ws))"

function split_paragraphs :: "string \<Rightarrow> string list" where
  \<comment> \<open>\<open>re.split(r"\n\s*\n", s)\<close>: a match starts at a newline and runs to the last
      newline of the white space that follows it\<close>
  "split_paragraphs [] = [[]]"
| "split_paragraphs (c # t) =
     (if c = CHR 0x0A \<and> CHR 0x0A \<in> set (takeWhile is_space t)
      then [] # split_paragraphs (after_last_newline (takeWhile is_space t) @ dropWhile is_space t)
      else push c (split_paragraphs t))"
  by pat_completeness auto
termination
proof (relation "measure length")
  fix c :: char and t :: string
  have "length (after_last_newline (takeWhile is_space t)) \<le> length (takeWhile is_space t)"
    unfolding after_last_newline_def
    by (metis length_rev length_takeWhile_le)
  moreover have "length (takeWhile is_space t) + length (dropWhile is_space t) = length t"
    by (metis length_append takeWhile_dropWhile_id)
  ultimately show
    "(after_last_newline (takeWhile is_space t) @ dropWhile is_space t, c # t) \<in> measure length"
    by simp
qed simp_all

function split_after_punct :: "bool \<Rightarrow> string \<Rightarrow> string list" where
  \<comment> \<open>\<open>re.split(r"(?<=[.!?])\s+", s)\<close>; the flag says that the character before the
      position is one of \<open>.!?\<close>\<close>
  "split_after_punct b [] = [[]]"
| "split_after_punct b (c # t) =
     (if b \<and> is_space c then [] # split_after_punct False (dropWhile is_space t)
      else push c (split_after_punct (punct c) t))"
  by pat_completeness auto
termination
  by (relation "measure (\<lambda>(b, s). length s)")
     (auto simp: le_imp_less_Suc length_dropWhile_le)

definition match_quote :: "string \<Rightarrow> ((string \<times> string) \<times> string) option" where
  \<comment> \<open>\<open>"([^"]+)"\s*\[(\d+)\]\<close> matched at the start of the string: the two groups and
      what follows the match\<close>
  "match_quote s =
     (case s of
        [] \<Rightarrow> None
      | c # t \<Rightarrow>
          if c = CHR 0x22
          then (let q = takeWhile (\<lambda>x. x \<noteq> CHR 0x22) t; r = dropWhile (\<lambda>x. x \<noteq> CHR 0x22) t
                in case r of
                     [] \<Rightarrow> None
                   | d # r' \<Rightarrow>
                       if q \<noteq> []
                       then (case match_citation (dropWhile is_space r') of
                               Some (ds, rest) \<Rightarrow> Some ((q, ds), rest)
                             | None \<Rightarrow> None)
                       else None)
          else None)"

lemma match_quote_shorter:
  assumes "match_quote s = Some (g, rest)"
  shows "length rest < length s"
proof (cases s)
  case Nil
  with assms show ?thesis by (simp add: match_quote_def)
next
  case (Cons c t)
  let ?r = "dropWhile (\<lambda>x. x \<noteq> CHR 0x22) t"
  show ?thesis
  proof (cases ?r)
    case Nil
    from assms have False
      unfolding match_quote_def Cons Let_def list.case Nil by (simp split: if_splits)
    then show ?thesis ..
  next
    case r: (Cons d r')
    show ?thesis
    proof (cases "match_citation (dropWhile is_space r')")
      case None
      from assms have False
        unfolding match_quote_def Cons Let_def list.case r None by (simp split: if_splits)
      then show ?thesis ..
    next
      case (Some p)
      obtain ds rest' where p: "p = (ds, rest')" by (cases p)
      from assms have "rest' = rest"
        unfolding match_quote_def Cons Let_def list.case r Some p by (simp split: if_splits)
      then have "length rest < length (dropWhile is_space r')"
        using Some p match_citation_shorter by blast
      also have "\<dots> \<le> length r'"
        by (rule length_dropWhile_le)
      also have "\<dots> < length ?r"
        using r by simp
      also have "\<dots> \<le> length t"
        by (rule length_dropWhile_le)
      finally show ?thesis
        using Cons by simp
    qed
  qed
qed

function findall_quotes :: "string \<Rightarrow> (string \<times> string) list" where
  \<comment> \<open>\<open>re.findall(r'"([^"]+)"\s*\[(\d+)\]', s)\<close>\<close>
  "findall_quotes [] = []"
| "findall_quotes (c # t) =
     (case match_quote (c # t) of
        Some (g, rest) \<Rightarrow> g # findall_quotes rest
      | None \<Rightarrow> findall_quotes t)"
  by pat_completeness auto
termination
  by (relation "measure length") (auto dest: match_quote_shorter)

section \<open>Embedding service\<close>

type_synonym vector = "rat list"

definition EMBEDDING_DIMENSION :: nat where
  "EMBEDDING_DIMENSION = 384"

definition zeros :: vector where
  "zeros = replicate EMBEDDING_DIMENSION 0"

text \<open>
  The sentence-transformer model is external: it is the parameter \<open>encode\<close>, a function
  from a text to its vector. Encoding a batch is encoding each of its texts.
\<close>

definition embed_text :: "(string \<Rightarrow> vector) \<Rightarrow> string \<Rightarrow> vector" where
  "embed_text encode text = (if strip text = [] then zeros else encode text)"

definition embed_batch :: "(string \<Rightarrow> vector) \<Rightarrow> string list \<Rightarrow> vector list" where
  "embed_batch encode texts =
     (if texts = [] then []
      else
        let valid_indices = filter (\<lambda>i. strip (texts ! i) \<noteq> []) [0..<length texts];
            valid_texts = map (\<lambda>i. texts ! i) valid_indices
        in if valid_texts = [] then replicate (length texts) zeros
           else
             let embeddings = map encode valid_texts
             in fold (\<lambda>(i, valid_idx) result. result[valid_idx := embeddings ! i])
                     (enumerate 0 valid_indices)
                     (replicate (length texts) zeros))"

section \<open>Vector index service\<close>

datatype error =
    FaissError
  | ImportError string
  | ExtractionError string
  | DatabaseError string
  | PendingRollbackError error

text \<open>
  The FAISS flat index is the list of its vectors (\<open>ntotal\<close> is its length);
  \<open>chunk_ids\<close> maps an index position to a chunk id; \<open>saved\<close> is what
  \<open>_save_index\<close> last wrote to disk.
\<close>

record vector_index =
  index :: "vector list"
  chunk_ids :: "string list"
  saved :: "vector list \<times> string list"

definition ntotal :: "vector_index \<Rightarrow> nat" where
  "ntotal vi = length (index vi)"

definition save_index :: "vector_index \<Rightarrow> vector_index" where
  "save_index vi = vi\<lparr>saved := (index vi, chunk_ids vi)\<rparr>"

definition add_chunks ::
  "(string \<Rightarrow> vector) \<Rightarrow> vector_index \<Rightarrow> string list \<Rightarrow> string list \<Rightarrow> vector_index" where
  "add_chunks encode vi ids contents =
     (if ids = [] \<or> contents = [] then vi
      else
        let embeddings = embed_batch encode contents
        in save_index (vi\<lparr>index := index vi @ embeddings, chunk_ids := chunk_ids vi @ ids\<rparr>))"

definition reconstruct :: "vector list \<Rightarrow> nat \<Rightarrow> error + vector" where
  \<comment> \<open>\<open>index.reconstruct(i)\<close> raises when \<open>i\<close> is not a stored position.\<close>
  "reconstruct ix i = (if i < length ix then Inr (ix ! i) else Inl FaissError)"

fun reconstruct_all :: "vector list \<Rightarrow> nat list \<Rightarrow> error + vector list" where
  "reconstruct_all ix [] = Inr []"
| "reconstruct_all ix (i # is) =
     (case reconstruct ix i of
        Inl e \<Rightarrow> Inl e
      | Inr v \<Rightarrow> (case reconstruct_all ix is of Inl e \<Rightarrow> Inl e | Inr vs \<Rightarrow> Inr (v # vs)))"

definition remove_chunks :: "vector_index \<Rightarrow> string list \<Rightarrow> error + vector_index" where
  "remove_chunks vi chunk_ids_to_remove =
     (let indices_to_keep =
            filter (\<lambda>i. chunk_ids vi ! i \<notin> set chunk_ids_to_remove) [0..<length (chunk_ids vi)]
      in if length indices_to_keep = length (chunk_ids vi) then Inr vi
         else if indices_to_keep \<noteq> [] then
           (case reconstruct_all (index vi) indices_to_keep of
              Inl e \<Rightarrow> Inl e
            | Inr vectors \<Rightarrow>
                Inr (save_index (vi\<lparr>index := vectors,
                                      chunk_ids := map (\<lambda>i. chunk_ids vi ! i) indices_to_keep\<rparr>)))
         else Inr (save_index (vi\<lparr>index := [], chunk_ids := []\<rparr>)))"

text \<open>
  \<open>index.search\<close> is FAISS's: the parameter \<open>faiss_search\<close> gives, for the stored
  vectors, the query vector and \<open>k\<close>, the (score, position) pairs it answers with, a
  position being \<open>-1\<close> where FAISS has no result. Nothing is assumed about it.
\<close>

definition search ::
  "(string \<Rightarrow> vector) \<Rightarrow> (vector list \<Rightarrow> vector \<Rightarrow> int \<Rightarrow> error + (rat \<times> int) list) \<Rightarrow>
   vector_index \<Rightarrow> string \<Rightarrow> int \<Rightarrow> error + (string \<times> rat) list" where
  "search encode faiss_search vi query top_k =
     (if ntotal vi = 0 then Inr []
      else
        let query_embedding = embed_text encode query;
            k = min top_k (int (ntotal vi))
        in case faiss_search (index vi) query_embedding k of
             Inl e \<Rightarrow> Inl e
           | Inr hits \<Rightarrow>
               Inr (map (\<lambda>(score, idx). (chunk_ids vi ! nat idx, score))
                        (filter (\<lambda>(score, idx). idx \<ge> 0 \<and> idx < int (length (chunk_ids vi))) hits)))"

definition index_consistent :: "vector_index \<Rightarrow> bool" where
  "index_consistent vi = (ntotal vi = length (chunk_ids vi))"

section \<open>Validation service\<close>

record ContextChunk =
  marker :: string
  content :: string
  citation :: string
  chunk_id :: string

record GroundingResult =
  sentence :: string
  is_grounded :: bool
  confidence :: rat
  matched_chunks :: "string list"
  matched_excerpts :: "string list"
  match_type :: string

record ValidationResult =
  is_valid :: bool
  grounding_score :: rat
  sentence_results :: "GroundingResult list"
  warnings :: "string list"
  errors :: "string list"

definition MIN_GROUNDING_CONFIDENCE :: rat where
  "MIN_GROUNDING_CONFIDENCE = 7 / 10"

definition min_confidence :: rat where
  \<comment> \<open>\<open>self.min_confidence\<close>, set from the settings when the service is built\<close>
  "min_confidence = MIN_GROUNDING_CONFIDENCE"

definition split_sentences :: "string \<Rightarrow> string list" where
  \<comment> \<open>\<open>_split_sentences\<close>\<close>
  "split_sentences txt =
     filter (\<lambda>s. s \<noteq> []) (map strip (split_char (CHR 0x0A) (mark_breaks [] txt)))"

definition dot :: "vector \<Rightarrow> vector \<Rightarrow> rat" where
  \<comment> \<open>\<open>np.dot\<close> of two vectors\<close>
  "dot a b = sum_list (map (\<lambda>(x, y). x * y) (zip a b))"

definition semantic_similarity :: "(string \<Rightarrow> vector) \<Rightarrow> string \<Rightarrow> string \<Rightarrow> rat" where
  \<comment> \<open>\<open>_semantic_similarity\<close>\<close>
  "semantic_similarity encode text1 text2 =
     (let emb1 = embed_text encode text1;
          emb2 = embed_text encode text2;
          similarity = dot emb1 emb2
      in max 0 (min 1 similarity))"

definition fuzzy_stopwords :: "string list" where
  "fuzzy_stopwords =
     [''the'', ''a'', ''an'', ''is'', ''are'', ''was'', ''were'', ''be'', ''been'',
      ''to'', ''of'', ''in'', ''for'', ''on'', ''with'', ''at'', ''by'', ''from'',
      ''this'', ''that'', ''these'', ''those'', ''it'', ''its'']"

text \<open>A Python set of strings is a list without repetitions.\<close>

definition fuzzy_match_score :: "string \<Rightarrow> string \<Rightarrow> rat" where
  \<comment> \<open>\<open>_fuzzy_match_score\<close>\<close>
  "fuzzy_match_score sent cont =
     (let sentence_lower = strip (sub_citations (lower sent));
          content_lower = lower cont;
          sentence_words =
            filter (\<lambda>w. w \<notin> set fuzzy_stopwords) (remdups (findall_words sentence_lower));
          content_words =
            filter (\<lambda>w. w \<notin> set fuzzy_stopwords) (remdups (findall_words content_lower))
      in if sentence_words = [] then 0
         else
           let overlap = length (filter (\<lambda>w. w \<in> set content_words) sentence_words)
           in of_nat overlap / of_nat (length sentence_words))"

definition find_matching_excerpt :: "string \<Rightarrow> string \<Rightarrow> nat \<Rightarrow> string" where
  \<comment> \<open>\<open>_find_matching_excerpt\<close>\<close>
  "find_matching_excerpt sent cont max_length =
     (let sentence_words = remdups (findall_words (lower sent));
          content_sentences = split_sentences cont;
          (best_excerpt, best_score) =
            fold (\<lambda>excerpt (best_excerpt, best_score).
                    let excerpt_words = remdups (findall_words (lower excerpt));
                        overlap = length (filter (\<lambda>w. w \<in> set excerpt_words) sentence_words)
                    in if overlap > best_score then (excerpt, overlap)
                       else (best_excerpt, best_score))
                 content_sentences ([], 0 :: nat)
      in if length best_excerpt > max_length then take max_length best_excerpt @ ''...''
         else best_excerpt)"

fun strategy_cited ::
  "(string \<Rightarrow> vector) \<Rightarrow> string \<Rightarrow> ContextChunk list \<Rightarrow> string list \<Rightarrow> GroundingResult option" where
  \<comment> \<open>Strategy 1 of \<open>_validate_sentence\<close>: the loop over the citation numbers of the
      sentence; \<open>None\<close> when the loop ends without returning\<close>
  "strategy_cited encode sent context_chunks [] = None"
| "strategy_cited encode sent context_chunks (citation_num # rest) =
     (let idx = int (int_of_str citation_num) - 1
      in if 0 \<le> idx \<and> idx < int (length context_chunks)
         then
           let chunk = context_chunks ! nat idx;
               similarity = semantic_similarity encode sent (content chunk)
           in if similarity > 1 / 2
              then Some \<lparr>sentence = sent, is_grounded = True, confidence = similarity,
                          matched_chunks = [chunk_id chunk],
                          matched_excerpts = [find_matching_excerpt sent (content chunk) 200],
                          match_type = ''cited''\<rparr>
              else strategy_cited encode sent context_chunks rest
         else strategy_cited encode sent context_chunks rest)"

fun strategy_exact :: "string \<Rightarrow> string \<Rightarrow> (string \<times> string) list \<Rightarrow> GroundingResult option" where
  \<comment> \<open>Strategy 2: the loop over the items of \<open>content_index\<close>\<close>
  "strategy_exact sent sentence_lower [] = None"
| "strategy_exact sent sentence_lower ((cid, cont) # rest) =
     (let clean_sentence = strip (sub_citations sentence_lower)
      in if length clean_sentence > 20 \<and> str_in clean_sentence cont
         then Some \<lparr>sentence = sent, is_grounded = True, confidence = 1,
                     matched_chunks = [cid], matched_excerpts = [clean_sentence],
                     match_type = ''exact''\<rparr>
         else strategy_exact sent sentence_lower rest)"

definition best_fuzzy :: "string \<Rightarrow> ContextChunk list \<Rightarrow> string option \<times> rat \<times> string" where
  \<comment> \<open>Strategy 3: the loop that keeps the best fuzzy match\<close>
  "best_fuzzy sent context_chunks =
     fold (\<lambda>chunk (best_match_chunk, best_match_score, best_excerpt).
             let score = fuzzy_match_score sent (content chunk)
             in if score > best_match_score
                then (Some (chunk_id chunk), score, find_matching_excerpt sent (content chunk) 200)
                else (best_match_chunk, best_match_score, best_excerpt))
          context_chunks (None, 0, [])"

definition best_semantic ::
  "(string \<Rightarrow> vector) \<Rightarrow> string \<Rightarrow> ContextChunk list \<Rightarrow> string option \<times> rat \<times> string" where
  \<comment> \<open>Strategy 4: the loop that keeps the best semantic match\<close>
  "best_semantic encode sent context_chunks =
     fold (\<lambda>chunk (best_semantic_chunk, best_semantic_score, best_semantic_excerpt).
             let score = semantic_similarity encode sent (content chunk)
             in if score > best_semantic_score
                then (Some (chunk_id chunk), score, find_matching_excerpt sent (content chunk) 200)
                else (best_semantic_chunk, best_semantic_score, best_semantic_excerpt))
          context_chunks (None, 0, [])"

definition if_truthy :: "string option \<Rightarrow> string list" where
  \<comment> \<open>\<open>[x] if x else []\<close> for an optional string: \<open>None\<close> and the empty string are falsy\<close>
  "if_truthy x = (case x of None \<Rightarrow> [] | Some s \<Rightarrow> if s \<noteq> [] then [s] else [])"

definition build_content_index :: "ContextChunk list \<Rightarrow> (string \<times> string) list" where
  \<comment> \<open>the dict comprehension \<open>{chunk.chunk_id: chunk.content.lower() for chunk in context_chunks}\<close>,
      in insertion order\<close>
  "build_content_index context_chunks =
     fold (\<lambda>chunk d. AList.update (chunk_id chunk) (lower (content chunk)) d) context_chunks []"

definition validate_sentence ::
  "(string \<Rightarrow> vector) \<Rightarrow> string \<Rightarrow> ContextChunk list \<Rightarrow> (string \<times> string) list \<Rightarrow> GroundingResult" where
  \<comment> \<open>\<open>_validate_sentence\<close>\<close>
  "validate_sentence encode sent context_chunks content_index =
     (let sentence_lower = lower sent;
          citations = findall_citations sent
      in case strategy_cited encode sent context_chunks citations of
           Some r \<Rightarrow> r
         | None \<Rightarrow>
            (case strategy_exact sent sentence_lower content_index of
               Some r \<Rightarrow> r
             | None \<Rightarrow>
                (let (best_match_chunk, best_match_score, best_excerpt) =
                       best_fuzzy sent context_chunks
                 in if best_match_score > 6 / 10
                    then \<lparr>sentence = sent, is_grounded = True, confidence = best_match_score,
                           matched_chunks = if_truthy best_match_chunk,
                           matched_excerpts = if_truthy (Some best_excerpt),
                           match_type = ''paraphrase''\<rparr>
                    else
                      (let (best_semantic_chunk, best_semantic_score, best_semantic_excerpt) =
                             best_semantic encode sent context_chunks
                       in if best_semantic_score > 7 / 10
                          then \<lparr>sentence = sent, is_grounded = True,
                                 confidence = best_semantic_score,
                                 matched_chunks = if_truthy best_semantic_chunk,
                                 matched_excerpts = if_truthy (Some best_semantic_excerpt),
                                 match_type = ''inferred''\<rparr>
                          else \<lparr>sentence = sent, is_grounded = False,
                                 confidence = max best_match_score best_semantic_score,
                                 matched_chunks = [], matched_excerpts = [],
                                 match_type = ''ungrounded''\<rparr>))))"

definition validate_answer :: "(string \<Rightarrow> vector) \<Rightarrow> string \<Rightarrow> ContextChunk list \<Rightarrow> ValidationResult" where
  "validate_answer encode answer context_chunks =
     (if answer = [] \<or> context_chunks = []
      then \<lparr>is_valid = False, grounding_score = 0, sentence_results = [],
             warnings = [''Empty answer or context''], errors = []\<rparr>
      else
        let sentences = split_sentences answer;
            content_index = build_content_index context_chunks;
            results = map (\<lambda>s. validate_sentence encode s context_chunks content_index) sentences;
            grounded_count = length (filter is_grounded results);
            score = (if results \<noteq> [] then of_nat grounded_count / of_nat (length results) else 0);
            valid = (score \<ge> min_confidence);
            ungrounded = map sentence (filter (\<lambda>r. \<not> is_grounded r) results);
            warnings1 = (if ungrounded \<noteq> []
                         then [str_nat (length ungrounded) @ '' sentence(s) could not be verified'']
                         else []);
            errs = (if score < 1 / 2
                    then [''Less than 50% of the answer is grounded in sources'']
                    else []);
            warnings2 = (if \<not> search_citation answer
                         then warnings1 @ [''Answer contains no citation markers'']
                         else warnings1)
        in \<lparr>is_valid = valid, grounding_score = score, sentence_results = results,
             warnings = warnings2, errors = errs\<rparr>)"

section \<open>Example inputs for the validation service\<close>

definition france_answer :: string where
  "france_answer = ''Paris is the capital of France [1]. Mr. X said so! Berlin too?''"

definition france_context :: "ContextChunk list" where
  "france_context =
     [\<lparr>marker = ''[1]'', content = ''Paris is the capital of France'', citation = ''doc'',
        chunk_id = ''c1''\<rparr>]"

definition paris_answer :: string where
  "paris_answer = ''Indeed. The capital of France is Paris.''"

definition paris_context :: "ContextChunk list" where
  "paris_context =
     [\<lparr>marker = ''[1]'', content = ''Berlin is in Germany.'', citation = ''a.txt'',
        chunk_id = ''c1''\<rparr>,
      \<lparr>marker = ''[2]'', content = ''As known, the capital of France is Paris.'',
        citation = ''b.txt'', chunk_id = ''c2''\<rparr>]"

definition short_answer :: string where
  "short_answer = ''this is of the that.''"

definition short_context :: "ContextChunk list" where
  "short_context =
     [\<lparr>marker = ''[1]'', content = ''We know this is of the that. Indeed.'', citation = ''a.txt'',
        chunk_id = ''c1''\<rparr>]"

section \<open>Extractive mode of the LLM service\<close>

record VerifiedQuote =
  quote :: string
  citation :: string
  source :: string
  verified :: bool

text \<open>
  The dict returned by \<open>_parse_extractive_response\<close>; the key \<open>all_verified\<close> is absent
  (\<open>None\<close>) in the \<open>NOT_FOUND\<close> answer.
\<close>

record ExtractiveResult =
  answer_text :: "string option"
  found :: bool
  quotes :: "VerifiedQuote list"
  all_verified :: "bool option"

fun verify_quotes :: "ContextChunk list \<Rightarrow> (string \<times> string) list \<Rightarrow> VerifiedQuote list" where
  \<comment> \<open>the loop of \<open>_parse_extractive_response\<close> over the pairs found by the regex\<close>
  "verify_quotes context_chunks [] = []"
| "verify_quotes context_chunks ((q, citation_num) # rest) =
     (let idx = int (int_of_str citation_num) - 1
      in if 0 \<le> idx \<and> idx < int (length context_chunks)
         then
           let chunk = context_chunks ! nat idx
           in (if str_in (lower q) (lower (content chunk))
               then \<lparr>quote = q, citation = ''['' @ citation_num @ '']'',
                      source = ContextChunk.citation chunk, verified = True\<rparr>
               else \<lparr>quote = q, citation = ''['' @ citation_num @ '']'',
                      source = ContextChunk.citation chunk, verified = False\<rparr>)
              # verify_quotes context_chunks rest
         else verify_quotes context_chunks rest)"

definition parse_extractive_response :: "string \<Rightarrow> ContextChunk list \<Rightarrow> ExtractiveResult" where
  \<comment> \<open>\<open>ExtractiveLLMService._parse_extractive_response\<close>\<close>
  "parse_extractive_response response context_chunks =
     (if str_in ''NOT_FOUND'' (upper response)
      then \<lparr>answer_text = None, found = False, quotes = [], all_verified = None\<rparr>
      else
        let pairs = findall_quotes response;
            verified_quotes = verify_quotes context_chunks pairs
        in \<lparr>answer_text = Some response, found = True, quotes = verified_quotes,
             all_verified =
               Some (if verified_quotes \<noteq> [] then list_all verified verified_quotes else False)\<rparr>)"

definition cited_in_range :: "ContextChunk list \<Rightarrow> string \<Rightarrow> bool" where
  \<comment> \<open>the citation number names a chunk of the context: \<open>0 <= int(k) - 1 < len(context_chunks)\<close>\<close>
  "cited_in_range context_chunks citation_num =
     (0 \<le> int (int_of_str citation_num) - 1
      \<and> int (int_of_str citation_num) - 1 < int (length context_chunks))"

definition quoted_response :: string where
  \<comment> \<open>the response \<open>"Paris is the capital" [1] "It has 90 million inhabitants" [2]\<close>\<close>
  "quoted_response =
     [CHR 0x22] @ ''Paris is the capital'' @ [CHR 0x22] @ '' [1] '' @
     [CHR 0x22] @ ''It has 90 million inhabitants'' @ [CHR 0x22] @ '' [2]''"

definition quoted_context :: "ContextChunk list" where
  "quoted_context =
     [\<lparr>marker = ''[1]'', content = ''Paris is the capital of France.'', citation = ''a.txt'',
        chunk_id = ''c1''\<rparr>]"

section \<open>Settings\<close>

definition BM25_WEIGHT :: rat where
  "BM25_WEIGHT = 3 / 10"

definition DENSE_WEIGHT :: rat where
  "DENSE_WEIGHT = 5 / 10"

definition STRUCTURAL_WEIGHT :: rat where
  "STRUCTURAL_WEIGHT = 2 / 10"

definition TOP_K_RETRIEVAL :: nat where
  "TOP_K_RETRIEVAL = 20"

definition CHUNK_SIZE :: nat where
  "CHUNK_SIZE = 512"

section \<open>Documents, chunks and the database\<close>

datatype DocumentStatus = PENDING | PROCESSING | INDEXED | FAILED

datatype DocumentType = PDF | DOCX | TXT | HTML | XLSX | MARKDOWN | IMAGE

text \<open>
  The rows of the two tables, with the columns that the services read or write. The column
  \<open>id\<close> is the field \<open>ident\<close>. A column default is the value of the field when the
  code does not set it.
\<close>

record Document =
  ident :: string
  filename :: string
  filepath :: string
  file_type :: DocumentType
  file_size :: nat
  file_hash :: string
  status :: DocumentStatus
  error_message :: "string option"
  title :: "string option"
  author :: "string option"
  category :: "string option"
  tags :: "string option"
  reliability_score :: rat
  page_count :: nat
  chunk_count :: nat
  indexed_at :: "nat option"

record Chunk =
  ident :: string
  document_id :: string
  content :: string
  content_hash :: "string option"
  page_number :: "nat option"
  section_title :: "string option"
  chunk_type :: string
  heading_level :: "nat option"
  confidence_weight :: rat
  sequence_index :: nat

record db =
  documents :: "Document list"
  chunks :: "Chunk list"

section \<open>Retrieval service\<close>

record RetrievedChunk =
  chunk_id :: string
  content :: string
  document_id :: string
  document_name :: string
  page_number :: "nat option"
  section_title :: "string option"
  chunk_type :: string
  bm25_score :: rat
  dense_score :: rat
  structural_score :: rat
  final_score :: rat
  confidence_weight :: rat

text \<open>
  A Python dict is an association list in insertion order: \<open>d[k] = v\<close> is
  \<open>AList.update k v d\<close>, \<open>d.get(k, default)\<close> is \<open>dict_get d k default\<close>.
\<close>

definition dict_get :: "('k \<times> 'v) list \<Rightarrow> 'k \<Rightarrow> 'v \<Rightarrow> 'v" where
  "dict_get d k dflt = (case map_of d k of Some v \<Rightarrow> v | None \<Rightarrow> dflt)"

definition truthy :: "'a list option \<Rightarrow> bool" where
  \<comment> \<open>the truth value of an optional list: \<open>None\<close> and \<open>[]\<close> are falsy\<close>
  "truthy x = (case x of None \<Rightarrow> False | Some xs \<Rightarrow> xs \<noteq> [])"

definition retrieval_stopwords :: "string list" where
  "retrieval_stopwords =
     [''the'', ''a'', ''an'', ''is'', ''are'', ''was'', ''were'', ''what'', ''how'',
      ''when'', ''where'', ''why'', ''who'', ''which'', ''can'', ''could'', ''would'',
      ''should'', ''do'', ''does'', ''did'', ''have'', ''has'', ''had'', ''be'', ''been'',
      ''being'', ''for'', ''to'', ''of'', ''in'', ''on'', ''at'', ''by'', ''with'']"

definition extract_query_terms :: "string \<Rightarrow> string list" where
  \<comment> \<open>\<open>_extract_query_terms\<close>\<close>
  "extract_query_terms query =
     (let words = findall_words (lower query)
      in filter (\<lambda>w. w \<notin> set retrieval_stopwords \<and> length w > 2) words)"

text \<open>
  The full-text table is SQLite's: \<open>fts\<close> gives, for the query expression and the limit,
  the rows (chunk id, bm25 score) of the \<open>SELECT\<close>, or the exception it raises.
\<close>

definition bm25_search ::
  "(string \<Rightarrow> nat \<Rightarrow> error + (string \<times> rat) list) \<Rightarrow> string list \<Rightarrow> nat \<Rightarrow> (string \<times> rat) list" where
  \<comment> \<open>\<open>_bm25_search\<close>\<close>
  "bm25_search fts query_terms limit =
     (if query_terms = [] then []
      else
        let fts_query = join '' OR '' query_terms
        in case fts fts_query limit of
             Inl e \<Rightarrow> []
           | Inr rows \<Rightarrow> fold (\<lambda>(cid, score) d. AList.update cid \<bar>score\<bar> d) rows [])"

definition default_scores :: "(string \<times> rat) list" where
  \<comment> \<open>the default factory of the \<open>defaultdict\<close> of \<open>_merge_results\<close>\<close>
  "default_scores = [(''bm25_score'', 0), (''dense_score'', 0)]"

definition set_score ::
  "(string \<times> (string \<times> rat) list) list \<Rightarrow> string \<Rightarrow> string \<Rightarrow> rat \<Rightarrow>
   (string \<times> (string \<times> rat) list) list" where
  \<comment> \<open>\<open>candidates[chunk_id][key] = v\<close> on the \<open>defaultdict\<close>\<close>
  "set_score candidates cid key v =
     AList.update cid (AList.update key v (dict_get candidates cid default_scores)) candidates"

definition merge_results ::
  "(string \<times> rat) list \<Rightarrow> (string \<times> rat) list \<Rightarrow> (string \<times> (string \<times> rat) list) list" where
  \<comment> \<open>\<open>_merge_results\<close>\<close>
  "merge_results bm25_results dense_results =
     (let candidates =
            (if bm25_results \<noteq> []
             then
               let max_bm25 = Max (set (map snd bm25_results))
               in fold (\<lambda>(cid, score) c.
                          set_score c cid ''bm25_score'' (if max_bm25 > 0 then score / max_bm25 else 0))
                       bm25_results []
             else [])
      in fold (\<lambda>(cid, score) c. set_score c cid ''dense_score'' score) dense_results candidates)"

fun insert_by_id :: "Chunk \<Rightarrow> Chunk list \<Rightarrow> Chunk list" where
  \<comment> \<open>puts a row into a list of rows that is ordered by id\<close>
  "insert_by_id c [] = [c]"
| "insert_by_id c (x # xs) =
     (if str_le (Chunk.ident x) (Chunk.ident c) then x # insert_by_id c xs else c # x # xs)"

definition order_by_id :: "Chunk list \<Rightarrow> Chunk list" where
  \<comment> \<open>the rows in the order of the primary key\<close>
  "order_by_id cs = foldr insert_by_id cs []"

definition query_chunks :: "db \<Rightarrow> string list \<Rightarrow> Chunk list" where
  \<comment> \<open>\<open>db.query(Chunk).filter(Chunk.id.in_(chunk_ids)).all()\<close>; the query has no
      \<open>ORDER BY\<close>, and SQLite answers it through the index of the primary key: the rows
      come in the order of their ids\<close>
  "query_chunks d ids = order_by_id (filter (\<lambda>c. Chunk.ident c \<in> set ids) (chunks d))"

definition query_docs :: "db \<Rightarrow> Chunk list \<Rightarrow> (string \<times> Document) list" where
  \<comment> \<open>\<open>{d.id: d for d in db.query(Document).filter(Document.id.in_(doc_ids)).all()}\<close>
      where \<open>doc_ids\<close> are the document ids of the given chunks\<close>
  "query_docs d cs =
     (let doc_ids = set (map Chunk.document_id cs)
      in fold (\<lambda>doc m. AList.update (Document.ident doc) doc m)
              (filter (\<lambda>doc. Document.ident doc \<in> doc_ids) (documents d)) [])"

definition filter_candidates ::
  "db \<Rightarrow> (string \<times> (string \<times> rat) list) list \<Rightarrow> string list option \<Rightarrow> string list option \<Rightarrow> rat \<Rightarrow>
   (string \<times> (string \<times> rat) list) list" where
  \<comment> \<open>\<open>_filter_candidates\<close>; \<open>candidates[chunk.id]\<close> is always present, the chunks
      having been selected by the keys of \<open>candidates\<close>\<close>
  "filter_candidates d candidates document_ids categories min_reliability =
     (if candidates = [] then []
      else
        let ids = map fst candidates;
            cs = query_chunks d ids;
            docs = query_docs d cs
        in fold (\<lambda>chunk filtered.
                   case map_of docs (Chunk.document_id chunk) of
                     None \<Rightarrow> filtered
                   | Some doc \<Rightarrow>
                       if truthy document_ids \<and> Document.ident doc \<notin> set (the document_ids)
                       then filtered
                       else if truthy categories
                               \<and> (case category doc of
                                     None \<Rightarrow> True
                                   | Some cat \<Rightarrow> cat \<notin> set (the categories))
                       then filtered
                       else if reliability_score doc < min_reliability then filtered
                       else (case map_of candidates (Chunk.ident chunk) of
                               None \<Rightarrow> filtered
                             | Some scores \<Rightarrow> AList.update (Chunk.ident chunk) scores filtered))
                cs [])"

definition structural_score_of :: "string \<Rightarrow> string list \<Rightarrow> Chunk \<Rightarrow> rat" where
  \<comment> \<open>the structural score computed in the loop of \<open>_structural_rerank\<close>\<close>
  "structural_score_of query query_terms chunk =
     (let query_lower = lower query;
          content_lower = lower (Chunk.content chunk);
          s0 = (if str_in query_lower content_lower then 0 + 5 / 10 else 0);
          term_coverage =
            of_nat (length (filter (\<lambda>t. str_in t content_lower) query_terms))
              / of_nat (max (length query_terms) 1);
          s1 = s0 + term_coverage * (3 / 10)
      in if Chunk.chunk_type chunk = ''heading'' then s1 + 2 / 10 else s1)"

definition rerank_chunk ::
  "(string \<times> (string \<times> rat) list) list \<Rightarrow> (string \<times> Document) list \<Rightarrow> string \<Rightarrow> string list \<Rightarrow>
   Chunk \<Rightarrow> RetrievedChunk" where
  \<comment> \<open>the body of the loop of \<open>_structural_rerank\<close>\<close>
  "rerank_chunk candidates docs query query_terms chunk =
     (let scores = dict_get candidates (Chunk.ident chunk) [];
          doc = map_of docs (Chunk.document_id chunk);
          structural = structural_score_of query query_terms chunk;
          doc_boost = (case doc of Some dc \<Rightarrow> reliability_score dc | None \<Rightarrow> 1)
                        * Chunk.confidence_weight chunk;
          final = (BM25_WEIGHT * dict_get scores ''bm25_score'' 0
                   + DENSE_WEIGHT * dict_get scores ''dense_score'' 0
                   + STRUCTURAL_WEIGHT * structural) * doc_boost
      in \<lparr>RetrievedChunk.chunk_id = Chunk.ident chunk,
           RetrievedChunk.content = Chunk.content chunk,
           RetrievedChunk.document_id = Chunk.document_id chunk,
           RetrievedChunk.document_name =
             (case doc of Some dc \<Rightarrow> filename dc | None \<Rightarrow> ''Unknown''),
           RetrievedChunk.page_number = Chunk.page_number chunk,
           RetrievedChunk.section_title = Chunk.section_title chunk,
           RetrievedChunk.chunk_type = Chunk.chunk_type chunk,
           RetrievedChunk.bm25_score = dict_get scores ''bm25_score'' 0,
           RetrievedChunk.dense_score = dict_get scores ''dense_score'' 0,
           RetrievedChunk.structural_score = structural,
           RetrievedChunk.final_score = final,
           RetrievedChunk.confidence_weight = Chunk.confidence_weight chunk\<rparr>)"

definition structural_rerank ::
  "db \<Rightarrow> (string \<times> (string \<times> rat) list) list \<Rightarrow> string \<Rightarrow> string list \<Rightarrow> RetrievedChunk list" where
  \<comment> \<open>\<open>_structural_rerank\<close>\<close>
  "structural_rerank d candidates query query_terms =
     (if candidates = [] then []
      else
        let ids = map fst candidates;
            cs = query_chunks d ids;
            docs = query_docs d cs
        in map (rerank_chunk candidates docs query query_terms) cs)"

definition sorted_reverse :: "('a \<Rightarrow> 'k::linorder) \<Rightarrow> 'a list \<Rightarrow> 'a list" where
  \<comment> \<open>\<open>sorted(xs, key=f, reverse=True)\<close>: Python reverses the list, sorts it stably in
      ascending order and reverses the result, so equal keys keep their order\<close>
  "sorted_reverse f xs = rev (sort_key f (rev xs))"

definition slice_to :: "int \<Rightarrow> 'a list \<Rightarrow> 'a list" where
  \<comment> \<open>\<open>xs[:k]\<close>; a negative \<open>k\<close> counts from the end\<close>
  "slice_to k xs = (if k \<ge> 0 then take (nat k) xs else take (length xs - nat (- k)) xs)"

definition retrieve ::
  "db \<Rightarrow> (string \<Rightarrow> nat \<Rightarrow> error + (string \<times> rat) list) \<Rightarrow> vector_index \<Rightarrow> (string \<Rightarrow> vector) \<Rightarrow>
   (vector list \<Rightarrow> vector \<Rightarrow> int \<Rightarrow> error + (rat \<times> int) list) \<Rightarrow>
   string \<Rightarrow> string list option \<Rightarrow> string list option \<Rightarrow> rat \<Rightarrow> int \<Rightarrow>
   error + RetrievedChunk list" where
  "retrieve d fts vi encode faiss_search query document_ids categories min_reliability top_k =
     (let query_terms = extract_query_terms query;
          bm25_results = bm25_search fts query_terms (TOP_K_RETRIEVAL * 2)
      in case search encode faiss_search vi query (int (TOP_K_RETRIEVAL * 2)) of
           Inl e \<Rightarrow> Inl e
         | Inr dense_results \<Rightarrow>
             let candidates = merge_results bm25_results dense_results;
                 candidates' =
                   (if truthy document_ids \<or> truthy categories \<or> min_reliability > 0
                    then filter_candidates d candidates document_ids categories min_reliability
                    else candidates);
                 results = structural_rerank d candidates' query query_terms
             in Inr (slice_to top_k (sorted_reverse RetrievedChunk.final_score results)))"

section \<open>The order of the results as the specification words it\<close>


definition spec_structural_score :: "string \<Rightarrow> string list \<Rightarrow> Chunk \<Rightarrow> rat" where
  \<comment> \<open>the structural score in the words of the specification: the lowercased raw query and
      the query terms are looked for in the chunk content itself\<close>
  "spec_structural_score query query_terms chunk =
     (if str_in (lower query) (Chunk.content chunk) then 1 / 2 else 0)
     + 3 / 10 * (of_nat (length (filter (\<lambda>t. str_in t (Chunk.content chunk)) query_terms))
                 / of_nat (max (length query_terms) 1))
     + (if Chunk.chunk_type chunk = ''heading'' then 1 / 5 else 0)"

section \<open>Example inputs for the retrieval service\<close>

definition doc1 :: Document where
  "doc1 = \<lparr>Document.ident = ''d1'', filename = ''notes.md'', filepath = ''/data/notes.md'',
            file_type = MARKDOWN, file_size = 100, file_hash = ''h1'', status = INDEXED,
            error_message = None, title = None, author = None, category = None, tags = None,
            reliability_score = 1, page_count = 0, chunk_count = 2, indexed_at = Some 0\<rparr>"

definition chunk_a :: Chunk where
  "chunk_a = \<lparr>Chunk.ident = ''a'', Chunk.document_id = ''d1'', Chunk.content = ''Alpha beta'',
               content_hash = None, Chunk.page_number = None, Chunk.section_title = None,
               Chunk.chunk_type = ''paragraph'', heading_level = None,
               Chunk.confidence_weight = 1, sequence_index = 0\<rparr>"

definition chunk_b :: Chunk where
  "chunk_b = \<lparr>Chunk.ident = ''b'', Chunk.document_id = ''d1'', Chunk.content = ''Gamma delta'',
               content_hash = None, Chunk.page_number = None, Chunk.section_title = None,
               Chunk.chunk_type = ''paragraph'', heading_level = None,
               Chunk.confidence_weight = 1, sequence_index = 0\<rparr>"

definition example_db :: db where
  "example_db = \<lparr>documents = [doc1], chunks = [chunk_a, chunk_b]\<rparr>"

definition example_fts :: "string \<Rightarrow> nat \<Rightarrow> error + (string \<times> rat) list" where
  \<comment> \<open>the full-text search finds chunk \<open>a\<close> only\<close>
  "example_fts q limit = Inr [(''a'', - 2)]"

definition example_index :: vector_index where
  "example_index = \<lparr>index = [[1, 0], [0, 1]], chunk_ids = [''a'', ''b''], saved = ([], [])\<rparr>"

definition example_faiss :: "vector list \<Rightarrow> vector \<Rightarrow> int \<Rightarrow> error + (rat \<times> int) list" where
  \<comment> \<open>the vector search finds chunk \<open>b\<close> only, with similarity 0.6\<close>
  "example_faiss ix q k = Inr [(3 / 5, 1)]"

definition example_encode :: "string \<Rightarrow> vector" where
  "example_encode t = [0, 1]"

definition retrieved_a :: "rat \<Rightarrow> rat \<Rightarrow> RetrievedChunk" where
  \<comment> \<open>the record retrieved for chunk \<open>a\<close>, with the given structural and final score\<close>
  "retrieved_a st fin =
     \<lparr>RetrievedChunk.chunk_id = ''a'', RetrievedChunk.content = ''Alpha beta'',
      RetrievedChunk.document_id = ''d1'', document_name = ''notes.md'',
      RetrievedChunk.page_number = None, RetrievedChunk.section_title = None,
      RetrievedChunk.chunk_type = ''paragraph'', bm25_score = 1, dense_score = 0,
      structural_score = st, final_score = fin, RetrievedChunk.confidence_weight = 1\<rparr>"

definition retrieved_b :: RetrievedChunk where
  \<comment> \<open>the record retrieved for chunk \<open>b\<close>\<close>
  "retrieved_b =
     \<lparr>RetrievedChunk.chunk_id = ''b'', RetrievedChunk.content = ''Gamma delta'',
      RetrievedChunk.document_id = ''d1'', document_name = ''notes.md'',
      RetrievedChunk.page_number = None, RetrievedChunk.section_title = None,
      RetrievedChunk.chunk_type = ''paragraph'', bm25_score = 0, dense_score = 3 / 5,
      structural_score = 0, final_score = 3 / 10, RetrievedChunk.confidence_weight = 1\<rparr>"

section \<open>Context service\<close>

definition context_header :: string where
  "context_header =
     ''REFERENCE SOURCES (use citation markers in your answer):'' @ [CHR 0x0A, CHR 0x0A]"

definition section_mark :: string where
  \<comment> \<open>the two non-ASCII characters that precede the section title in a citation, as the
      bytes of their UTF-8 encoding\<close>
  "section_mark = [CHR 0xE0, CHR 0xB8, CHR 0xA2, CHR 0xE0, CHR 0xB8, CHR 0x87]"

definition unique_chunks :: "RetrievedChunk list \<Rightarrow> RetrievedChunk list" where
  \<comment> \<open>the deduplication loop of \<open>build_context\<close>, by the first 100 characters\<close>
  "unique_chunks cs =
     snd (fold (\<lambda>chunk (seen_content, unique).
                  let content_key = take 100 (RetrievedChunk.content chunk)
                  in if content_key \<notin> set seen_content
                     then (seen_content @ [content_key], unique @ [chunk])
                     else (seen_content, unique))
               cs ([], []))"

definition citation_of :: "RetrievedChunk \<Rightarrow> string" where
  \<comment> \<open>the citation string built in the loop of \<open>build_context\<close>\<close>
  "citation_of chunk =
     (let parts1 = [document_name chunk];
          parts2 = (case RetrievedChunk.page_number chunk of
                      Some n \<Rightarrow> if n \<noteq> 0 then parts1 @ [''p.'' @ str_nat n] else parts1
                    | None \<Rightarrow> parts1);
          parts3 = (case RetrievedChunk.section_title chunk of
                      Some t \<Rightarrow> if t \<noteq> [] then parts2 @ [section_mark @ t] else parts2
                    | None \<Rightarrow> parts2)
      in join '' | '' parts3)"

definition formatted :: "nat \<Rightarrow> string \<Rightarrow> string" where
  \<comment> \<open>\<open>f"{marker} {chunk.content}"\<close> with \<open>marker = f"[{i}]"\<close>\<close>
  "formatted i txt = (''['' @ str_nat i @ '']'') @ '' '' @ txt"

fun pack ::
  "int \<Rightarrow> nat \<Rightarrow> RetrievedChunk list \<Rightarrow> string list \<Rightarrow> ContextChunk list \<Rightarrow>
   string list \<times> ContextChunk list" where
  \<comment> \<open>the loop \<open>for i, chunk in enumerate(unique_chunks, 1)\<close> of \<open>build_context\<close>, with
      its \<open>break\<close>\<close>
  "pack max_tokens i [] context_parts context_chunks = (context_parts, context_chunks)"
| "pack max_tokens i (chunk # rest) context_parts context_chunks =
     (let estimated_tokens = sum_list (map length context_parts) div 4
      in if int estimated_tokens + int (length (formatted i (RetrievedChunk.content chunk)) div 4)
              > max_tokens
         then (context_parts, context_chunks)
         else pack max_tokens (i + 1) rest
                (context_parts @ [formatted i (RetrievedChunk.content chunk)])
                (context_chunks @
                   [\<lparr>marker = ''['' @ str_nat i @ '']'',
                     ContextChunk.content = RetrievedChunk.content chunk,
                     ContextChunk.citation = citation_of chunk,
                     ContextChunk.chunk_id = RetrievedChunk.chunk_id chunk\<rparr>]))"

definition build_context :: "int \<Rightarrow> RetrievedChunk list \<Rightarrow> string \<Rightarrow> string \<times> ContextChunk list" where
  \<comment> \<open>\<open>ContextService.build_context\<close>; \<open>max_tokens\<close> is the attribute of the service\<close>
  "build_context max_tokens cs query =
     (if cs = [] then ([], [])
      else
        let (context_parts, context_chunks) = pack max_tokens 1 (unique_chunks cs) [] [];
            context_string = context_header @ join [CHR 0x0A, CHR 0x0A] context_parts
        in (context_string, context_chunks))"

definition estimated_tokens_of :: "string list \<Rightarrow> nat" where
  \<comment> \<open>the estimate of the code for a list of parts: their characters divided by 4\<close>
  "estimated_tokens_of context_parts = sum_list (map length context_parts) div 4"

definition parts_of :: "ContextChunk list \<Rightarrow> string list" where
  \<comment> \<open>the formatted parts of the context chunks, \<open>f"{marker} {content}"\<close>\<close>
  "parts_of ccs = map (\<lambda>c. marker c @ '' '' @ ContextChunk.content c) ccs"

section \<open>Example inputs for the context service\<close>

definition short_chunk :: "string \<Rightarrow> string \<Rightarrow> RetrievedChunk" where
  "short_chunk cid txt =
     \<lparr>RetrievedChunk.chunk_id = cid, RetrievedChunk.content = txt,
      RetrievedChunk.document_id = ''d1'', document_name = ''notes.md'',
      RetrievedChunk.page_number = Some 3, RetrievedChunk.section_title = Some ''Intro'',
      RetrievedChunk.chunk_type = ''paragraph'', bm25_score = 0, dense_score = 0,
      structural_score = 0, final_score = 0, RetrievedChunk.confidence_weight = 1\<rparr>"

definition two_chunks :: "RetrievedChunk list" where
  "two_chunks = [short_chunk ''a'' ''abc'', short_chunk ''b'' ''x'']"

section \<open>Ingestion service\<close>

text \<open>
  A file is what the readers of the processors give for it: the name, path, suffix and size
  of the path, the SHA-256 of the bytes, and, for each parser, its result or the exception it
  raises. \<open>pdf_pages\<close> is the exception of \<open>PdfReader(str(filepath))\<close> or, for each
  page of the reader, \<open>page.extract_text() or ""\<close> or the exception that
  \<open>extract_text\<close> raises for that page; \<open>docx_paragraphs\<close> is the style name (\<open>None\<close> without a style) and
  the text of each paragraph; \<open>html_tags\<close> is the name and the stripped text of each tag of
  \<open>soup.find_all(["h1", ..., "h6", "p", "li"])\<close>; \<open>ocr_text\<close> is the string of
  \<open>pytesseract\<close>.
\<close>

record SourceFile =
  path_name :: string
  path_str :: string
  suffix :: string
  st_size :: nat
  sha256 :: string
  pdf_pages :: "error + (error + string) list"
  plain_text :: "error + string"
  docx_paragraphs :: "error + (string option \<times> string) list"
  html_tags :: "error + (string \<times> string) list"
  ocr_text :: "error + string"

record Metadata =
  meta_title :: "string option"
  meta_author :: "string option"
  meta_category :: "string option"
  meta_tags :: "string option"
  meta_reliability_score :: "rat option"

fun error_str :: "error \<Rightarrow> string" where
  \<comment> \<open>\<open>str(e)\<close>\<close>
  "error_str FaissError = ''Error in faiss''"
| "error_str (ImportError msg) = msg"
| "error_str (ExtractionError msg) = msg"
| "error_str (DatabaseError msg) = msg"
| "error_str (PendingRollbackError e) =
     ''This Session's transaction has been rolled back due to a previous exception during flush. To begin a new transaction with this Session, first issue Session.rollback(). Original exception was: ''
     @ error_str e"

definition detect_file_type :: "SourceFile \<Rightarrow> DocumentType" where
  \<comment> \<open>\<open>_detect_file_type\<close>\<close>
  "detect_file_type f =
     (let ext = lower (suffix f)
      in dict_get
           [(''.pdf'', PDF), (''.docx'', DOCX), (''.doc'', DOCX), (''.txt'', TXT), (''.html'', HTML),
            (''.htm'', HTML), (''.xlsx'', XLSX), (''.xls'', XLSX), (''.md'', MARKDOWN),
            (''.png'', IMAGE), (''.jpg'', IMAGE), (''.jpeg'', IMAGE)]
           ext TXT)"

text \<open>
  A chunk as a processor builds it. The columns that the constructor call does not name have
  their column defaults (\<open>chunk_type\<close> paragraph, \<open>confidence_weight\<close> 1.0,
  \<open>sequence_index\<close> 0); the id is empty until the row is inserted.
\<close>

definition new_chunk :: "string \<Rightarrow> string \<Rightarrow> Chunk" where
  "new_chunk doc_id txt =
     \<lparr>Chunk.ident = [], Chunk.document_id = doc_id, Chunk.content = txt, content_hash = None,
      Chunk.page_number = None, Chunk.section_title = None, Chunk.chunk_type = ''paragraph'',
      heading_level = None, Chunk.confidence_weight = 1, sequence_index = 0\<rparr>"

definition paragraph_chunk ::
  "(string \<Rightarrow> string) \<Rightarrow> string \<Rightarrow> nat option \<Rightarrow> string list \<Rightarrow> nat \<Rightarrow> Chunk" where
  \<comment> \<open>the chunk that \<open>_chunk_text_with_structure\<close> builds from \<open>current_chunk\<close>;
      \<open>sha\<close> is \<open>hashlib.sha256(...).hexdigest()\<close>\<close>
  "paragraph_chunk sha doc_id page current_chunk seq =
     (let txt = join '' '' current_chunk
      in (new_chunk doc_id txt)
           \<lparr>Chunk.page_number := page, Chunk.chunk_type := ''paragraph'', sequence_index := seq,
            Chunk.confidence_weight := 1, content_hash := Some (take 32 (sha txt))\<rparr>)"

type_synonym chunker_state = "Chunk list \<times> string list \<times> nat \<times> nat"

definition flush_chunk ::
  "(string \<Rightarrow> string) \<Rightarrow> string \<Rightarrow> nat option \<Rightarrow> chunker_state \<Rightarrow> chunker_state" where
  \<comment> \<open>append the chunk of \<open>current_chunk\<close>, count it, and empty the buffer\<close>
  "flush_chunk sha doc_id page st =
     (case st of (acc, current_chunk, current_length, seq) \<Rightarrow>
        (acc @ [paragraph_chunk sha doc_id page current_chunk seq], [], 0, seq + 1))"

definition add_piece ::
  "(string \<Rightarrow> string) \<Rightarrow> string \<Rightarrow> nat option \<Rightarrow> string \<Rightarrow> chunker_state \<Rightarrow> chunker_state" where
  \<comment> \<open>flush when the piece would exceed \<open>CHUNK_SIZE\<close> and the buffer is not empty, then
      append the piece (a sentence of a large paragraph, or a whole paragraph)\<close>
  "add_piece sha doc_id page piece st =
     (case (case st of (acc, current_chunk, current_length, seq) \<Rightarrow>
              if current_length + length piece > CHUNK_SIZE \<and> current_chunk \<noteq> []
              then flush_chunk sha doc_id page st else st) of
        (acc, current_chunk, current_length, seq) \<Rightarrow>
          (acc, current_chunk @ [piece], current_length + length piece + 1, seq))"

definition step_sentence ::
  "(string \<Rightarrow> string) \<Rightarrow> string \<Rightarrow> nat option \<Rightarrow> string \<Rightarrow> chunker_state \<Rightarrow> chunker_state" where
  \<comment> \<open>the body of the loop over the sentences of a large paragraph\<close>
  "step_sentence sha doc_id page sent st =
     (let s = strip sent in if s = [] then st else add_piece sha doc_id page s st)"

definition step_paragraph ::
  "(string \<Rightarrow> string) \<Rightarrow> string \<Rightarrow> nat option \<Rightarrow> string \<Rightarrow> chunker_state \<Rightarrow> chunker_state" where
  \<comment> \<open>the body of the loop over the paragraphs\<close>
  "step_paragraph sha doc_id page para st =
     (let p = strip para
      in if p = [] then st
         else if length p > CHUNK_SIZE
         then
           let st1 = (case st of (acc, current_chunk, current_length, seq) \<Rightarrow>
                        if current_chunk \<noteq> [] then flush_chunk sha doc_id page st else st)
           in fold (step_sentence sha doc_id page) (split_after_punct False p) st1
         else add_piece sha doc_id page p st)"

definition chunk_text_with_structure ::
  "(string \<Rightarrow> string) \<Rightarrow> string \<Rightarrow> string \<Rightarrow> nat option \<Rightarrow> Chunk list" where
  \<comment> \<open>\<open>_chunk_text_with_structure\<close>\<close>
  "chunk_text_with_structure sha txt doc_id page =
     (case fold (step_paragraph sha doc_id page) (split_paragraphs txt) ([], [], 0, 0) of
        (acc, current_chunk, current_length, seq) \<Rightarrow>
          if current_chunk \<noteq> [] then acc @ [paragraph_chunk sha doc_id page current_chunk seq]
          else acc)"

fun merge_loop :: "nat \<Rightarrow> Chunk list \<Rightarrow> Chunk list \<Rightarrow> Chunk option \<Rightarrow> Chunk list" where
  \<comment> \<open>the loop of \<open>_merge_small_chunks\<close> and the handling of the buffer after it; the
      arguments are \<open>min_size\<close>, the chunks still to visit, \<open>merged\<close> and \<open>buffer\<close>\<close>
  "merge_loop min_size [] merged buffer =
     (case buffer of
        None \<Rightarrow> merged
      | Some b \<Rightarrow>
          if merged \<noteq> []
          then butlast merged @
                 [(last merged)\<lparr>Chunk.content := Chunk.content (last merged) @ '' '' @ Chunk.content b\<rparr>]
          else merged @ [b])"
| "merge_loop min_size (chunk # rest) merged buffer =
     (if length (Chunk.content chunk) < min_size \<and> Chunk.chunk_type chunk \<noteq> ''heading''
      then
        (case buffer of
           Some b \<Rightarrow>
             merge_loop min_size rest merged
               (Some (b\<lparr>Chunk.content := Chunk.content b @ '' '' @ Chunk.content chunk\<rparr>))
         | None \<Rightarrow> merge_loop min_size rest merged (Some chunk))
      else
        (case buffer of
           Some b \<Rightarrow>
             if length (Chunk.content b) < min_size
             then merge_loop min_size rest
                    (merged @ [chunk\<lparr>Chunk.content := Chunk.content b @ '' '' @ Chunk.content chunk\<rparr>])
                    None
             else merge_loop min_size rest (merged @ [b] @ [chunk]) None
         | None \<Rightarrow> merge_loop min_size rest (merged @ [chunk]) None))"

definition merge_small_chunks :: "Chunk list \<Rightarrow> nat \<Rightarrow> Chunk list" where
  \<comment> \<open>\<open>_merge_small_chunks\<close>; the default of \<open>min_size\<close> is 100\<close>
  "merge_small_chunks cs min_size =
     (if length cs < 2 then cs else merge_loop min_size cs [] None)"

fun pdf_pages_loop ::
  "(string \<Rightarrow> string) \<Rightarrow> string \<Rightarrow> (nat \<times> (error + string)) list \<Rightarrow> Chunk list \<Rightarrow>
   error + Chunk list" where
  \<comment> \<open>the loop \<open>for page_num, page in enumerate(reader.pages, 1)\<close> of \<open>_process_pdf\<close>,
      from the chunks collected so far; the exception of a page ends it\<close>
  "pdf_pages_loop sha doc_id [] acc = Inr acc"
| "pdf_pages_loop sha doc_id ((page_num, page) # rest) acc =
     (case page of
        Inl e \<Rightarrow> Inl e
      | Inr txt \<Rightarrow>
          if strip txt = [] then pdf_pages_loop sha doc_id rest acc
          else pdf_pages_loop sha doc_id rest
                 (acc @ chunk_text_with_structure sha txt doc_id (Some page_num)))"

definition process_pdf ::
  "(string \<Rightarrow> string) \<Rightarrow> Document \<Rightarrow> SourceFile \<Rightarrow> Document \<times> (error + Chunk list)" where
  \<comment> \<open>\<open>_process_pdf\<close>; it sets \<open>document.page_count\<close> before it reads the pages, so the
      document as the call leaves it is returned with the chunks or the exception\<close>
  "process_pdf sha document f =
     (case pdf_pages f of
        Inl e \<Rightarrow> (document, Inl e)
      | Inr pages \<Rightarrow>
          (document\<lparr>page_count := length pages\<rparr>,
           pdf_pages_loop sha (Document.ident document) (enumerate 1 pages) []))"

definition docx_step ::
  "string \<Rightarrow> string option \<times> string \<Rightarrow> Chunk list \<times> string option \<Rightarrow> Chunk list \<times> string option" where
  \<comment> \<open>the body of the loop of \<open>_process_docx\<close>; the state is the chunk list and
      \<open>current_section\<close>\<close>
  "docx_step doc_id para st =
     (case st of (acc, current_section) \<Rightarrow>
        let txt = strip (snd para)
        in if txt = [] then st
           else
             let style = (case fst para of Some n \<Rightarrow> lower n | None \<Rightarrow> [])
             in if str_in ''heading'' style
                then
                  let level = (case find is_digit style of Some c \<Rightarrow> digit_val c | None \<Rightarrow> 1)
                  in (acc @ [(new_chunk doc_id txt)
                               \<lparr>Chunk.chunk_type := ''heading'', heading_level := Some level,
                                Chunk.section_title := Some txt, Chunk.confidence_weight := 12 / 10\<rparr>],
                      Some txt)
                else
                  (acc @ [(new_chunk doc_id txt)
                            \<lparr>Chunk.chunk_type := ''paragraph'',
                             Chunk.section_title := current_section,
                             Chunk.confidence_weight := 1\<rparr>],
                   current_section))"

definition process_docx :: "Document \<Rightarrow> SourceFile \<Rightarrow> error + Chunk list" where
  \<comment> \<open>\<open>_process_docx\<close>\<close>
  "process_docx document f =
     (case docx_paragraphs f of
        Inl e \<Rightarrow> Inl e
      | Inr paras \<Rightarrow>
          Inr (merge_small_chunks
                 (fst (fold (docx_step (Document.ident document)) paras ([], None))) 100))"

definition process_text ::
  "(string \<Rightarrow> string) \<Rightarrow> Document \<Rightarrow> SourceFile \<Rightarrow> error + Chunk list" where
  \<comment> \<open>\<open>_process_text\<close>\<close>
  "process_text sha document f =
     (case plain_text f of
        Inl e \<Rightarrow> Inl e
      | Inr txt \<Rightarrow> Inr (chunk_text_with_structure sha txt (Document.ident document) None))"

definition html_step :: "string \<Rightarrow> string \<times> string \<Rightarrow> Chunk list \<Rightarrow> Chunk list" where
  \<comment> \<open>the body of the loop of \<open>_process_html\<close>\<close>
  "html_step doc_id tag acc =
     (case tag of (name, txt) \<Rightarrow>
        if txt = [] then acc
        else if starts_with ''h'' name
        then acc @ [(new_chunk doc_id txt)
                      \<lparr>Chunk.chunk_type := ''heading'',
                       heading_level := Some (digit_val (name ! 1)),
                       Chunk.confidence_weight := 12 / 10\<rparr>]
        else if name = ''li''
        then acc @ [(new_chunk doc_id txt)
                      \<lparr>Chunk.chunk_type := ''list_item'', heading_level := None,
                       Chunk.confidence_weight := 1\<rparr>]
        else acc @ [(new_chunk doc_id txt)
                      \<lparr>Chunk.chunk_type := ''paragraph'', heading_level := None,
                       Chunk.confidence_weight := 1\<rparr>])"

definition process_html :: "Document \<Rightarrow> SourceFile \<Rightarrow> error + Chunk list" where
  \<comment> \<open>\<open>_process_html\<close>\<close>
  "process_html document f =
     (case html_tags f of
        Inl e \<Rightarrow> Inl e
      | Inr tgs \<Rightarrow>
          Inr (merge_small_chunks (fold (html_step (Document.ident document)) tgs []) 100))"

definition match_header :: "string \<Rightarrow> (nat \<times> string) option" where
  \<comment> \<open>\<open>re.match(r"^(#{1,6})\s+(.+)$", line)\<close> on a line without newline: the number of
      hashes and the second group\<close>
  "match_header line =
     (let hashes = takeWhile (\<lambda>c. c = CHR ''#'') line;
          after_hashes = dropWhile (\<lambda>c. c = CHR ''#'') line;
          ws = takeWhile is_space after_hashes;
          rest = dropWhile is_space after_hashes
      in if 1 \<le> length hashes \<and> length hashes \<le> 6 \<and> ws \<noteq> []
         then (if rest \<noteq> [] then Some (length hashes, rest)
               else if length ws \<ge> 2 then Some (length hashes, [last ws])
               else None)
         else None)"

definition markdown_step ::
  "string \<Rightarrow> string \<Rightarrow> Chunk list \<times> string option \<Rightarrow> Chunk list \<times> string option" where
  \<comment> \<open>the body of the loop of \<open>_process_markdown\<close>\<close>
  "markdown_step doc_id raw_line st =
     (case st of (acc, current_section) \<Rightarrow>
        let line = strip raw_line
        in if line = [] then st
           else
             (case match_header line of
                Some (level, txt) \<Rightarrow>
                  (acc @ [(new_chunk doc_id txt)
                            \<lparr>Chunk.chunk_type := ''heading'', heading_level := Some level,
                             Chunk.section_title := Some txt, Chunk.confidence_weight := 12 / 10\<rparr>],
                   Some txt)
              | None \<Rightarrow>
                  (acc @ [(new_chunk doc_id line)
                            \<lparr>Chunk.chunk_type := ''paragraph'',
                             Chunk.section_title := current_section,
                             Chunk.confidence_weight := 1\<rparr>],
                   current_section)))"

definition process_markdown :: "Document \<Rightarrow> SourceFile \<Rightarrow> error + Chunk list" where
  \<comment> \<open>\<open>_process_markdown\<close>\<close>
  "process_markdown document f =
     (case plain_text f of
        Inl e \<Rightarrow> Inl e
      | Inr txt \<Rightarrow>
          Inr (merge_small_chunks
                 (fst (fold (markdown_step (Document.ident document)) (split_char (CHR 0x0A) txt)
                         ([], None))) 100))"

definition process_image ::
  "(string \<Rightarrow> string) \<Rightarrow> Document \<Rightarrow> SourceFile \<Rightarrow> error + Chunk list" where
  \<comment> \<open>\<open>_process_image\<close>\<close>
  "process_image sha document f =
     (case ocr_text f of
        Inl e \<Rightarrow> Inl e
      | Inr txt \<Rightarrow>
          if strip txt = [] then Inr []
          else Inr (chunk_text_with_structure sha txt (Document.ident document) None))"

definition process_document ::
  "(string \<Rightarrow> string) \<Rightarrow> Document \<Rightarrow> SourceFile \<Rightarrow> Document \<times> (error + Chunk list)" where
  \<comment> \<open>\<open>_process_document\<close>: the document as the processor leaves it (only \<open>_process_pdf\<close>
      writes to it), with the chunks or the exception of the processor; a type without a
      processor is processed as text\<close>
  "process_document sha document f =
     (case file_type document of
        PDF \<Rightarrow> process_pdf sha document f
      | DOCX \<Rightarrow> (document, process_docx document f)
      | TXT \<Rightarrow> (document, process_text sha document f)
      | HTML \<Rightarrow> (document, process_html document f)
      | MARKDOWN \<Rightarrow> (document, process_markdown document f)
      | IMAGE \<Rightarrow> (document, process_image sha document f)
      | XLSX \<Rightarrow> (document, process_text sha document f))"

text \<open>
  The database session is explicit state. \<open>store\<close> holds the rows of the transaction of
  the session (those added since the last commit included), \<open>committed\<close> the rows that are
  durable. The session is made with \<open>autoflush=False\<close>: \<open>db.add\<close> registers a row with
  the session and sends nothing to the database, so it does not raise; \<open>db.flush\<close> and
  \<open>db.commit\<close> write the rows, and the database may refuse them. \<open>flush_error s d\<close> is
  the exception with which the database answers the writing of the rows \<open>d\<close>, \<open>None\<close>
  when it accepts them. When a flush fails, SQLAlchemy rolls the transaction back and
  deactivates it: the rows of the transaction are gone, and until \<open>db.rollback()\<close> is
  called every query, flush and commit of the session raises \<open>PendingRollbackError\<close>;
  \<open>inactive\<close> holds the exception of the failed flush while the session is in that state.
  The ids drawn by \<open>uuid4\<close> are parameters: \<open>doc_uuid\<close> for the document and
  \<open>chunk_uuid k\<close> for its \<open>k\<close>-th chunk.
\<close>

record session =
  store :: db
  committed :: db
  inactive :: "error option"
  flush_error :: "db \<Rightarrow> error option"

definition add_document :: "session \<Rightarrow> Document \<Rightarrow> session" where
  \<comment> \<open>\<open>db.add(document)\<close>\<close>
  "add_document s doc = s\<lparr>store := (store s)\<lparr>documents := documents (store s) @ [doc]\<rparr>\<rparr>"

definition add_chunk :: "session \<Rightarrow> Chunk \<Rightarrow> session" where
  \<comment> \<open>\<open>db.add(chunk)\<close>\<close>
  "add_chunk s c = s\<lparr>store := (store s)\<lparr>chunks := chunks (store s) @ [c]\<rparr>\<rparr>"

definition update_document :: "session \<Rightarrow> Document \<Rightarrow> session" where
  \<comment> \<open>the attribute assignments to the document object reach its row, when the transaction
      has one\<close>
  "update_document s doc =
     s\<lparr>store := (store s)\<lparr>documents :=
          map (\<lambda>d. if Document.ident d = Document.ident doc then doc else d) (documents (store s))\<rparr>\<rparr>"

definition flush :: "session \<Rightarrow> (error + unit) \<times> session" where
  \<comment> \<open>\<open>db.flush()\<close>: the exception or \<open>()\<close>, and the session after the call\<close>
  "flush s =
     (case inactive s of
        Some e0 \<Rightarrow> (Inl (PendingRollbackError e0), s)
      | None \<Rightarrow>
          (case flush_error s (store s) of
             Some e \<Rightarrow> (Inl e, s\<lparr>store := committed s, inactive := Some e\<rparr>)
           | None \<Rightarrow> (Inr (), s)))"

definition commit :: "session \<Rightarrow> (error + unit) \<times> session" where
  \<comment> \<open>\<open>db.commit()\<close>: it flushes, and makes the rows of the transaction durable when the
      flush has not raised\<close>
  "commit s =
     (case flush s of
        (Inl e, s1) \<Rightarrow> (Inl e, s1)
      | (Inr u, s1) \<Rightarrow> (Inr (), s1\<lparr>committed := store s1\<rparr>))"

definition new_document :: "string \<Rightarrow> SourceFile \<Rightarrow> Metadata option \<Rightarrow> Document" where
  \<comment> \<open>the document record that \<open>ingest_file\<close> creates:
      \<open>Document(filename=..., status=DocumentStatus.PROCESSING, **metadata)\<close>, the other
      columns with their defaults, the id as it is after \<open>db.flush()\<close>\<close>
  "new_document doc_uuid f metadata =
     (let md = (case metadata of
                  Some m \<Rightarrow> m
                | None \<Rightarrow> \<lparr>meta_title = None, meta_author = None, meta_category = None,
                            meta_tags = None, meta_reliability_score = None\<rparr>)
      in \<lparr>Document.ident = doc_uuid, filename = path_name f, filepath = path_str f,
           file_type = detect_file_type f, file_size = st_size f, file_hash = sha256 f,
           status = PROCESSING, error_message = None, title = meta_title md,
           author = meta_author md, category = meta_category md, tags = meta_tags md,
           reliability_score = (case meta_reliability_score md of Some r \<Rightarrow> r | None \<Rightarrow> 1),
           page_count = 0, chunk_count = 0, indexed_at = None\<rparr>)"

definition except_handler ::
  "session \<Rightarrow> Document \<Rightarrow> error \<Rightarrow> (error + Document) \<times> session" where
  \<comment> \<open>the handler \<open>except Exception as e\<close> of \<open>ingest_file\<close>: it sets the status and the
      message, commits, and raises \<open>e\<close> again; there is no \<open>db.rollback()\<close> before the
      commit, and when the commit raises, its exception leaves the handler\<close>
  "except_handler s document e =
     (let document1 = (document\<lparr>status := FAILED, error_message := Some (error_str e)\<rparr>)
      in (case commit (update_document s document1) of
            (Inl e1, s1) \<Rightarrow> (Inl e1, s1)
          | (Inr u, s1) \<Rightarrow> (Inl e, s1)))"

definition ingest_file ::
  "session \<Rightarrow> nat \<Rightarrow> (string \<Rightarrow> string) \<Rightarrow> string \<Rightarrow> (nat \<Rightarrow> string) \<Rightarrow> SourceFile \<Rightarrow>
   Metadata option \<Rightarrow> (error + Document) \<times> session" where
  \<comment> \<open>\<open>IngestionService.ingest_file\<close>; the result is the returned document or the exception
      that leaves the function, with the session after the call; \<open>now\<close> is
      \<open>datetime.utcnow()\<close>. The query for a duplicate and the \<open>db.flush()\<close> after
      \<open>db.add(document)\<close> stand before the \<open>try\<close> block: their exceptions leave the
      function as they are. The exceptions of \<open>_process_document\<close> and of the
      \<open>db.commit()\<close> of the \<open>try\<close> block go to the handler\<close>
  "ingest_file s now sha doc_uuid chunk_uuid f metadata =
     (case inactive s of
        Some e0 \<Rightarrow> (Inl (PendingRollbackError e0), s)
      | None \<Rightarrow>
          (case find (\<lambda>d. file_hash d = sha256 f) (documents (store s)) of
             Some existing \<Rightarrow> (Inr existing, s)
           | None \<Rightarrow>
               let document = new_document doc_uuid f metadata
               in (case flush (add_document s document) of
                     (Inl e, s1) \<Rightarrow> (Inl e, s1)
                   | (Inr u, s1) \<Rightarrow>
                       (case process_document sha document f of
                          (document1, Inl e) \<Rightarrow> except_handler s1 document1 e
                        | (document1, Inr cs) \<Rightarrow>
                            let s2 = fold (\<lambda>(k, c) acc. add_chunk acc (c\<lparr>Chunk.ident := chunk_uuid k\<rparr>))
                                       (enumerate 0 cs) s1;
                                document2 = (document1\<lparr>status := INDEXED, chunk_count := length cs,
                                                        indexed_at := Some now\<rparr>)
                            in (case commit (update_document s2 document2) of
                                  (Inl e, s3) \<Rightarrow> except_handler s3 document2 e
                                | (Inr u, s3) \<Rightarrow> (Inr document2, s3))))))"

definition small_chunk :: "nat \<Rightarrow> Chunk \<Rightarrow> bool" where
  \<comment> \<open>the test of the loop of \<open>_merge_small_chunks\<close>:
      \<open>len(chunk.content) < min_size and chunk.chunk_type != "heading"\<close>\<close>
  "small_chunk min_size chunk =
     (length (Chunk.content chunk) < min_size \<and> Chunk.chunk_type chunk \<noteq> ''heading'')"

section \<open>Example inputs for the ingestion service\<close>

definition para :: "string \<Rightarrow> Chunk" where
  \<comment> \<open>a paragraph chunk as \<open>_process_markdown\<close> builds it\<close>
  "para txt = (new_chunk ''d1'' txt)\<lparr>Chunk.chunk_type := ''paragraph''\<rparr>"

definition heading :: "string \<Rightarrow> Chunk" where
  \<comment> \<open>a heading chunk as \<open>_process_markdown\<close> builds it\<close>
  "heading txt =
     (new_chunk ''d1'' txt)
       \<lparr>Chunk.chunk_type := ''heading'', heading_level := Some 1,
        Chunk.section_title := Some txt, Chunk.confidence_weight := 12 / 10\<rparr>"

definition empty_session :: session where
  \<comment> \<open>a session on an empty database that accepts every row\<close>
  "empty_session =
     \<lparr>store = \<lparr>documents = [], chunks = []\<rparr>, committed = \<lparr>documents = [], chunks = []\<rparr>,
      inactive = None, flush_error = (\<lambda>d. None)\<rparr>"

definition two_page_pdf :: SourceFile where
  \<comment> \<open>a PDF file of two pages\<close>
  "two_page_pdf =
     \<lparr>path_name = ''report.pdf'', path_str = ''/data/uploads/report.pdf'', suffix = ''.pdf'',
      st_size = 2048, sha256 = ''abc123'',
      pdf_pages = Inr [Inr ''First page.'', Inr ''Second page.''],
      plain_text = Inl (ExtractionError ''not a text file''),
      docx_paragraphs = Inl (ExtractionError ''not a docx file''),
      html_tags = Inr [],
      ocr_text = Inl (ExtractionError ''not an image'')\<rparr>"

definition scan_png :: SourceFile where
  \<comment> \<open>an image file, on a machine without the OCR packages\<close>
  "scan_png =
     \<lparr>path_name = ''scan.png'', path_str = ''/data/uploads/scan.png'', suffix = ''.PNG'',
      st_size = 4096, sha256 = ''def456'',
      pdf_pages = Inl (ExtractionError ''not a pdf file''),
      plain_text = Inl (ExtractionError ''not a text file''),
      docx_paragraphs = Inl (ExtractionError ''not a docx file''),
      html_tags = Inr [],
      ocr_text = Inl (ImportError ''pytesseract and Pillow required for OCR'')\<rparr>"

definition example_uuid :: "nat \<Rightarrow> string" where
  "example_uuid k = ''chunk-'' @ str_nat k"

definition long_a :: string where
  "long_a = replicate 100 (CHR ''a'')"

definition long_b :: string where
  "long_b = replicate 100 (CHR ''b'')"

definition one_doc_session :: session where
  \<comment> \<open>a session whose database holds one indexed document with two chunks\<close>
  "one_doc_session =
     \<lparr>store = example_db, committed = example_db, inactive = None, flush_error = (\<lambda>d. None)\<rparr>"

definition notes_txt :: SourceFile where
  \<comment> \<open>a text file of one sentence\<close>
  "notes_txt =
     \<lparr>path_name = ''notes.txt'', path_str = ''/data/uploads/notes.txt'', suffix = ''.txt'',
      st_size = 11, sha256 = ''0a1b2c'',
      pdf_pages = Inl (ExtractionError ''not a pdf file''),
      plain_text = Inr ''Some notes.'',
      docx_paragraphs = Inl (ExtractionError ''not a docx file''),
      html_tags = Inr [],
      ocr_text = Inl (ExtractionError ''not an image'')\<rparr>"

definition torn_pdf :: SourceFile where
  \<comment> \<open>a PDF file of two pages, the second of which cannot be read\<close>
  "torn_pdf =
     \<lparr>path_name = ''torn.pdf'', path_str = ''/data/uploads/torn.pdf'', suffix = ''.pdf'',
      st_size = 2048, sha256 = ''9f8e7d'',
      pdf_pages = Inr [Inr ''First page.'', Inl (ExtractionError ''cannot read page'')],
      plain_text = Inl (ExtractionError ''not a text file''),
      docx_paragraphs = Inl (ExtractionError ''not a docx file''),
      html_tags = Inr [],
      ocr_text = Inl (ExtractionError ''not an image'')\<rparr>"

definition full_disk_session :: session where
  \<comment> \<open>a session on a database that holds one indexed document with two chunks and has room
      for one more document row, but refuses further chunk rows\<close>
  "full_disk_session =
     \<lparr>store = example_db, committed = example_db, inactive = None,
      flush_error = (\<lambda>d. if length (chunks d) \<le> 2 then None
                           else Some (DatabaseError ''database or disk is full''))\<rparr>"

definition seq_ok :: "chunker_state \<Rightarrow> bool" where
  \<comment> \<open>the chunks emitted so far are numbered \<open>0, 1, ...\<close> up to the counter\<close>
  "seq_ok st = (case st of (acc, cur, len, seq) \<Rightarrow> map sequence_index acc = [0..<seq])"

section \<open>Properties of the vector index\<close>

lemma length_fold_update:
  "length (fold (\<lambda>(i, j) r. r[j := f i]) ps r0) = length r0"
  by (induction ps arbitrary: r0) (auto split: prod.splits)

lemma length_embed_batch: "length (embed_batch encode texts) = length texts"
  by (simp add: embed_batch_def Let_def length_fold_update)

lemma reconstruct_all_ok:
  "\<forall>i \<in> set is. i < length ix \<Longrightarrow> \<exists>vs. reconstruct_all ix is = Inr vs \<and> length vs = length is"
  by (induction "is") (auto simp: reconstruct_def)

lemma add_chunks_consistent:
  "index_consistent vi \<Longrightarrow> length ids = length contents \<Longrightarrow>
   index_consistent (add_chunks encode vi ids contents)"
  by (auto simp: add_chunks_def index_consistent_def ntotal_def save_index_def Let_def
      length_embed_batch)

lemma remove_chunks_consistent:
  assumes "index_consistent vi"
  shows "\<exists>vi'. remove_chunks vi rm = Inr vi' \<and> index_consistent vi'"
proof -
  let ?keep = "filter (\<lambda>i. chunk_ids vi ! i \<notin> set rm) [0..<length (chunk_ids vi)]"
  have "\<forall>i \<in> set ?keep. i < length (index vi)"
    using assms by (auto simp: index_consistent_def ntotal_def)
  then obtain vs where vs: "reconstruct_all (index vi) ?keep = Inr vs" "length vs = length ?keep"
    using reconstruct_all_ok by blast
  show ?thesis
    using assms vs
    by (auto simp: remove_chunks_def Let_def index_consistent_def ntotal_def save_index_def)
qed

lemma search_ids_in_mapping:
  "search encode faiss_search vi query top_k = Inr res \<Longrightarrow> fst ` set res \<subseteq> set (chunk_ids vi)"
  by (auto simp: search_def Let_def split: if_splits sum.splits)

text \<open>
  C10. The number of stored vectors equals the length of the chunk-id mapping:
  \<open>add_chunks\<close> keeps this when the id list and the content list have the same length,
  \<open>remove_chunks\<close> keeps it always (and does not raise), and every chunk id that
  \<open>search\<close> returns is in the mapping.
\<close>

theorem vector_index_invariant:
  "(index_consistent vi \<and> length ids = length contents \<longrightarrow>
      index_consistent (add_chunks encode vi ids contents))
   \<and> (index_consistent vi \<longrightarrow>
        (\<exists>vi'. remove_chunks vi rm = Inr vi' \<and> index_consistent vi'))
   \<and> (search encode faiss_search vi query top_k = Inr res \<longrightarrow>
        fst ` set res \<subseteq> set (chunk_ids vi))"
  using add_chunks_consistent remove_chunks_consistent search_ids_in_mapping by blast

theorem vector_index_invariant_witness:
  "index_consistent \<lparr>index = [[1]], chunk_ids = [''a''], saved = ([], [])\<rparr>
   \<and> length [''b''] = length [''some text'']
   \<and> index_consistent
         (add_chunks (\<lambda>t. [1]) \<lparr>index = [[1]], chunk_ids = [''a''], saved = ([], [])\<rparr>
            [''b''] [''some text''])
   \<and> (\<exists>vi'. remove_chunks \<lparr>index = [[1]], chunk_ids = [''a''], saved = ([], [])\<rparr> [''a'']
                = Inr vi' \<and> index_consistent vi')
   \<and> search (\<lambda>t. [1]) (\<lambda>ix q k. Inr [(1, 0), (0, -1), (1/2, 7)])
         \<lparr>index = [[1]], chunk_ids = [''a''], saved = ([], [])\<rparr> ''q'' 5 = Inr [(''a'', 1)]
   \<and> fst ` set [(''a'', 1::rat)]
         \<subseteq> set (chunk_ids \<lparr>index = [[1]], chunk_ids = [''a''], saved = ([], [])\<rparr>)"
proof -
  let ?vi = "\<lparr>index = [[1::rat]], chunk_ids = [''a''], saved = ([], [])\<rparr>"
  let ?fs = "\<lambda>(ix :: vector list) (q :: vector) (k :: int).
               (Inr [(1, 0), (0, -1), (1/2, 7)] :: error + (rat \<times> int) list)"
  have c: "index_consistent ?vi"
    by (simp add: index_consistent_def ntotal_def)
  have l: "length [''b''] = length [''some text'']"
    by simp
  have s: "search (\<lambda>t. [1]) ?fs ?vi ''q'' 5 = Inr [(''a'', 1)]"
    by (simp add: search_def ntotal_def Let_def)
  show ?thesis
    using c l s
      vector_index_invariant [of ?vi "[''b'']" "[''some text'']" "\<lambda>t. [1]" "[''a'']" ?fs "''q''" 5
        "[(''a'', 1)]"]
    by simp
qed

section \<open>Properties of the validation service\<close>

lemma validate_answer_results:
  "answer \<noteq> [] \<Longrightarrow> context_chunks \<noteq> [] \<Longrightarrow>
   sentence_results (validate_answer encode answer context_chunks) =
     map (\<lambda>s. validate_sentence encode s context_chunks (build_content_index context_chunks))
         (split_sentences answer)"
  by (simp add: validate_answer_def Let_def)

lemma validate_answer_score:
  "answer \<noteq> [] \<Longrightarrow> context_chunks \<noteq> [] \<Longrightarrow>
   grounding_score (validate_answer encode answer context_chunks) =
     of_nat (length (filter is_grounded (sentence_results (validate_answer encode answer context_chunks))))
       / of_nat (length (sentence_results (validate_answer encode answer context_chunks)))"
  by (simp add: validate_answer_def Let_def)

lemma validate_answer_valid:
  "answer \<noteq> [] \<Longrightarrow> context_chunks \<noteq> [] \<Longrightarrow>
   is_valid (validate_answer encode answer context_chunks) =
     (grounding_score (validate_answer encode answer context_chunks) \<ge> MIN_GROUNDING_CONFIDENCE)"
  by (simp add: validate_answer_def Let_def min_confidence_def)

lemma validate_answer_errors:
  "answer \<noteq> [] \<Longrightarrow> context_chunks \<noteq> [] \<Longrightarrow>
   (errors (validate_answer encode answer context_chunks) \<noteq> []) =
     (grounding_score (validate_answer encode answer context_chunks) < 1 / 2)"
  by (simp add: validate_answer_def Let_def)

text \<open>
  C1 (as amended: for a non-empty answer). For a non-empty answer and a non-empty context,
  \<open>validate_answer\<close> gives one result per sentence, \<open>grounding_score\<close> is the number of
  grounded sentences divided by the number of sentences (and 0 when the answer has no
  sentence, which is also the value of the quotient in HOL), \<open>is_valid\<close> holds exactly when
  \<open>grounding_score \<ge> MIN_GROUNDING_CONFIDENCE\<close> and no error is recorded, and an error
  is recorded exactly when \<open>grounding_score < 0.5\<close>.
\<close>

theorem validate_answer_aggregate:
  assumes "answer \<noteq> []" and "context_chunks \<noteq> []"
  shows "(let r = validate_answer encode answer context_chunks
          in length (sentence_results r) = length (split_sentences answer)
           \<and> grounding_score r =
               of_nat (length (filter is_grounded (sentence_results r)))
                 / of_nat (length (sentence_results r))
           \<and> (is_valid r \<longleftrightarrow> grounding_score r \<ge> MIN_GROUNDING_CONFIDENCE \<and> errors r = [])
           \<and> (errors r \<noteq> [] \<longleftrightarrow> grounding_score r < 1 / 2))"
proof -
  let ?r = "validate_answer encode answer context_chunks"
  have 1: "length (sentence_results ?r) = length (split_sentences answer)"
    using assms by (simp add: validate_answer_results)
  have 2: "grounding_score ?r =
      of_nat (length (filter is_grounded (sentence_results ?r))) / of_nat (length (sentence_results ?r))"
    using assms by (rule validate_answer_score)
  have 3: "is_valid ?r = (grounding_score ?r \<ge> MIN_GROUNDING_CONFIDENCE)"
    using assms by (rule validate_answer_valid)
  have 4: "(errors ?r \<noteq> []) = (grounding_score ?r < 1 / 2)"
    using assms by (rule validate_answer_errors)
  have 5: "grounding_score ?r \<ge> MIN_GROUNDING_CONFIDENCE \<Longrightarrow> errors ?r = []"
    using 4 by (auto simp: MIN_GROUNDING_CONFIDENCE_def)
  show ?thesis
    unfolding Let_def using 1 2 3 4 5 by blast
qed

theorem validate_answer_aggregate_witness:
  "france_answer \<noteq> [] \<and> france_context \<noteq> []
   \<and> length (split_sentences france_answer) = 3
   \<and> grounding_score (validate_answer (\<lambda>t. []) france_answer france_context) = 1 / 3
   \<and> \<not> is_valid (validate_answer (\<lambda>t. []) france_answer france_context)
   \<and> errors (validate_answer (\<lambda>t. []) france_answer france_context) \<noteq> []"
proof -
  let ?r = "validate_answer (\<lambda>t. []) france_answer france_context"
  have a: "france_answer \<noteq> []" by code_simp
  have c: "france_context \<noteq> []" by code_simp
  have n: "length (split_sentences france_answer) = 3" by code_simp
  have g: "grounding_score ?r = 1 / 3"
    by code_simp
  note t = validate_answer_aggregate [OF a c, of "\<lambda>t. []", unfolded Let_def]
  from t have e: "(errors ?r \<noteq> []) = (grounding_score ?r < 1 / 2)"
    by blast
  from t have v: "is_valid ?r = (grounding_score ?r \<ge> MIN_GROUNDING_CONFIDENCE \<and> errors ?r = [])"
    by blast
  have e': "errors ?r \<noteq> []"
    unfolding e g by simp
  have v': "\<not> is_valid ?r"
    unfolding v g by (simp add: MIN_GROUNDING_CONFIDENCE_def)
  show ?thesis
    using a c n g e' v' by blast
qed

text \<open>
  For the empty answer the guard at the head of \<open>validate_answer\<close> returns a score of 0
  with no error recorded.
\<close>

theorem validate_answer_empty_answer_counterexample:
  "france_context \<noteq> []
   \<and> grounding_score (validate_answer (\<lambda>t. []) [] france_context) < 1 / 2
   \<and> errors (validate_answer (\<lambda>t. []) [] france_context) = []"
  by (simp add: validate_answer_def france_context_def)

lemma strategy_cited_type:
  "strategy_cited encode sent ctx cits = Some r \<Longrightarrow> match_type r = ''cited''"
  by (induction cits) (auto simp: Let_def split: if_splits)

lemma strategy_exact_finds:
  "(k, v) \<in> set items \<Longrightarrow> length (strip (sub_citations sl)) > 20 \<Longrightarrow>
   str_in (strip (sub_citations sl)) v \<Longrightarrow>
   \<exists>r. strategy_exact sent sl items = Some r \<and> sentence r = sent \<and> is_grounded r
       \<and> confidence r = 1 \<and> match_type r = ''exact''"
  by (induction items) (auto simp: Let_def)

lemma fold_update_other:
  "k \<notin> f ` set xs \<Longrightarrow>
   map_of (fold (\<lambda>x d. AList.update (f x) (g x) d) xs d0) k = map_of d0 k"
  by (induction xs arbitrary: d0) (auto simp: update_conv')

lemma fold_update_distinct:
  "distinct (map fst d0) \<Longrightarrow> distinct (map fst (fold (\<lambda>x d. AList.update (f x) (g x) d) xs d0))"
  by (induction xs arbitrary: d0) (auto simp: distinct_update)

lemma fold_update_lookup:
  "distinct (map f xs) \<Longrightarrow> x \<in> set xs \<Longrightarrow>
   map_of (fold (\<lambda>x d. AList.update (f x) (g x) d) xs d0) (f x) = Some (g x)"
proof (induction xs arbitrary: d0)
  case Nil
  then show ?case by simp
next
  case (Cons y ys)
  show ?case
  proof (cases "x = y")
    case True
    then have "f x \<notin> f ` set ys"
      using Cons.prems by auto
    then show ?thesis
      using True by (simp add: fold_update_other update_conv')
  next
    case False
    then show ?thesis
      using Cons by auto
  qed
qed

lemma content_index_entry:
  assumes "distinct (map ContextChunk.chunk_id ctx)" and "c \<in> set ctx"
  shows "(ContextChunk.chunk_id c, lower (ContextChunk.content c)) \<in> set (build_content_index ctx)"
proof -
  have "map_of (build_content_index ctx) (ContextChunk.chunk_id c) = Some (lower (ContextChunk.content c))"
    unfolding build_content_index_def using assms by (rule fold_update_lookup)
  then show ?thesis
    by (rule map_of_SomeD)
qed

lemma validate_sentence_exact:
  assumes nc: "match_type (validate_sentence encode sent ctx (build_content_index ctx)) \<noteq> ''cited''"
    and d: "distinct (map ContextChunk.chunk_id ctx)"
    and c: "c \<in> set ctx"
    and l: "length (strip (sub_citations (lower sent))) > 20"
    and s: "str_in (strip (sub_citations (lower sent))) (lower (ContextChunk.content c))"
  shows "sentence (validate_sentence encode sent ctx (build_content_index ctx)) = sent
       \<and> is_grounded (validate_sentence encode sent ctx (build_content_index ctx))
       \<and> confidence (validate_sentence encode sent ctx (build_content_index ctx)) = 1
       \<and> match_type (validate_sentence encode sent ctx (build_content_index ctx)) = ''exact''"
proof -
  have n: "strategy_cited encode sent ctx (findall_citations sent) = None"
  proof (cases "strategy_cited encode sent ctx (findall_citations sent)")
    case None
    then show ?thesis .
  next
    case (Some r)
    then have "validate_sentence encode sent ctx (build_content_index ctx) = r"
      by (simp add: validate_sentence_def)
    with nc strategy_cited_type [OF Some] show ?thesis by simp
  qed
  obtain r where r: "strategy_exact sent (lower sent) (build_content_index ctx) = Some r"
      "sentence r = sent" "is_grounded r" "confidence r = 1" "match_type r = ''exact''"
    using strategy_exact_finds [OF content_index_entry [OF d c] l s] by blast
  have "validate_sentence encode sent ctx (build_content_index ctx) = r"
    using n r(1) by (simp add: validate_sentence_def)
  with r show ?thesis by simp
qed

text \<open>
  C4 (as amended: more than 20 characters, chunk ids distinct). Let a sentence of a non-empty
  answer not be classified CITED. If the lower-cased sentence with its citation markers removed
  and stripped has more than 20 characters and is a substring of the lower-cased content of some
  context chunk, the chunk ids of the context being distinct, then \<open>validate_answer\<close>
  classifies the sentence as \<open>exact\<close>, grounded, with confidence 1.
\<close>

theorem exact_match_classification:
  assumes "answer \<noteq> []"
    and "sent \<in> set (split_sentences answer)"
    and "match_type (validate_sentence encode sent ctx (build_content_index ctx)) \<noteq> ''cited''"
    and "distinct (map ContextChunk.chunk_id ctx)"
    and "c \<in> set ctx"
    and "length (strip (sub_citations (lower sent))) > 20"
    and "str_in (strip (sub_citations (lower sent))) (lower (ContextChunk.content c))"
  shows "\<exists>r \<in> set (sentence_results (validate_answer encode answer ctx)).
           r = validate_sentence encode sent ctx (build_content_index ctx)
         \<and> sentence r = sent \<and> is_grounded r \<and> confidence r = 1 \<and> match_type r = ''exact''"
proof -
  have "ctx \<noteq> []"
    using assms(5) by auto
  then have "sentence_results (validate_answer encode answer ctx) =
      map (\<lambda>s. validate_sentence encode s ctx (build_content_index ctx)) (split_sentences answer)"
    using assms(1) by (simp add: validate_answer_results)
  then have "validate_sentence encode sent ctx (build_content_index ctx)
      \<in> set (sentence_results (validate_answer encode answer ctx))"
    using assms(2) by simp
  then show ?thesis
    using validate_sentence_exact [OF assms(3-7)] by blast
qed

theorem exact_match_classification_witness:
  "paris_answer \<noteq> []
   \<and> ''The capital of France is Paris.'' \<in> set (split_sentences paris_answer)
   \<and> match_type (validate_sentence (\<lambda>t. []) ''The capital of France is Paris.'' paris_context
        (build_content_index paris_context)) \<noteq> ''cited''
   \<and> distinct (map ContextChunk.chunk_id paris_context)
   \<and> paris_context ! 1 \<in> set paris_context
   \<and> length (strip (sub_citations (lower ''The capital of France is Paris.''))) > 20
   \<and> str_in (strip (sub_citations (lower ''The capital of France is Paris.'')))
        (lower (ContextChunk.content (paris_context ! 1)))
   \<and> (\<exists>r \<in> set (sentence_results (validate_answer (\<lambda>t. []) paris_answer paris_context)).
         r = validate_sentence (\<lambda>t. []) ''The capital of France is Paris.'' paris_context
               (build_content_index paris_context)
       \<and> sentence r = ''The capital of France is Paris.'' \<and> is_grounded r \<and> confidence r = 1
       \<and> match_type r = ''exact'')"
proof -
  have 1: "paris_answer \<noteq> []"
    by code_simp
  have 2: "''The capital of France is Paris.'' \<in> set (split_sentences paris_answer)"
    by code_simp
  have 3: "match_type (validate_sentence (\<lambda>t. []) ''The capital of France is Paris.'' paris_context
        (build_content_index paris_context)) \<noteq> ''cited''"
    by code_simp
  have 4: "distinct (map ContextChunk.chunk_id paris_context)"
    by code_simp
  have 5: "paris_context ! 1 \<in> set paris_context"
    by code_simp
  have 6: "length (strip (sub_citations (lower ''The capital of France is Paris.''))) > 20"
    by code_simp
  have 7: "str_in (strip (sub_citations (lower ''The capital of France is Paris.'')))
        (lower (ContextChunk.content (paris_context ! 1)))"
    by code_simp
  show ?thesis
    using 1 2 3 4 5 6 7 exact_match_classification [OF 1 2 3 4 5 6 7] by blast
qed

text \<open>
  A sentence of exactly 20 characters that is a substring of a chunk is not classified
  \<open>exact\<close>: the test of the code is \<open>len(clean_sentence) > 20\<close>.
\<close>

theorem exact_match_length_20_counterexample:
  "split_sentences short_answer = [short_answer]
   \<and> findall_citations short_answer = []
   \<and> length (strip (sub_citations (lower short_answer))) = 20
   \<and> str_in (strip (sub_citations (lower short_answer))) (lower (ContextChunk.content (short_context ! 0)))
   \<and> map match_type (sentence_results (validate_answer (\<lambda>t. []) short_answer short_context))
       = [''ungrounded'']"
  by code_simp

section \<open>Properties of the extractive mode\<close>

lemma verify_quotes_step:
  "verify_quotes ctx ((q, k) # rest) =
     (if cited_in_range ctx k
      then [\<lparr>quote = q, VerifiedQuote.citation = ''['' @ k @ '']'',
              source = ContextChunk.citation (ctx ! (int_of_str k - 1)),
              verified = str_in (lower q) (lower (ContextChunk.content (ctx ! (int_of_str k - 1))))\<rparr>]
      else []) @ verify_quotes ctx rest"
proof -
  have "nat (int (int_of_str k) - 1) = int_of_str k - 1"
    by simp
  then show ?thesis
    by (simp add: cited_in_range_def Let_def)
qed

lemma verify_quotes_complete:
  "(q, k) \<in> set pairs \<Longrightarrow> cited_in_range ctx k \<Longrightarrow>
   \<exists>v \<in> set (verify_quotes ctx pairs).
      quote v = q \<and> VerifiedQuote.citation v = ''['' @ k @ '']''
    \<and> verified v = str_in (lower q) (lower (ContextChunk.content (ctx ! (int_of_str k - 1))))"
proof (induction pairs)
  case Nil
  then show ?case by simp
next
  case (Cons p pairs)
  obtain q' k' where p: "p = (q', k')" by (cases p)
  show ?case
  proof (cases "(q, k) = p")
    case True
    then show ?thesis
      using Cons.prems(2) p unfolding p verify_quotes_step by simp
  next
    case False
    then have "(q, k) \<in> set pairs" using Cons.prems(1) by auto
    then show ?thesis
      using Cons.IH Cons.prems(2) unfolding p verify_quotes_step by auto
  qed
qed

lemma verify_quotes_sound:
  "v \<in> set (verify_quotes ctx pairs) \<Longrightarrow>
   \<exists>(q, k) \<in> set pairs. cited_in_range ctx k \<and> quote v = q
     \<and> verified v = str_in (lower q) (lower (ContextChunk.content (ctx ! (int_of_str k - 1))))"
proof (induction pairs)
  case Nil
  then show ?case by simp
next
  case (Cons p pairs)
  obtain q' k' where p: "p = (q', k')" by (cases p)
  show ?case
    using Cons unfolding p verify_quotes_step by (auto split: if_splits)
qed

lemma length_verify_quotes:
  "length (verify_quotes ctx pairs) = length (filter (\<lambda>(q, k). cited_in_range ctx k) pairs)"
proof (induction pairs)
  case Nil
  then show ?case by simp
next
  case (Cons p pairs)
  obtain q' k' where p: "p = (q', k')" by (cases p)
  show ?case
    using Cons unfolding p verify_quotes_step by simp
qed

text \<open>
  C5 (as amended: for the pairs whose number names a context chunk). When the response does not
  contain \<open>NOT_FOUND\<close>, every pair \<open>"quote" [k]\<close> found by the regex with
  \<open>1 \<le> k \<le> len(context_chunks)\<close> has an entry in the returned quote list whose flag
  \<open>verified\<close> says whether the lower-cased quote is a substring of the lower-cased content of
  chunk \<open>k - 1\<close> (so a failing quote is kept, flagged false); every returned entry comes from
  such a pair; pairs whose number names no chunk are dropped; and \<open>all_verified\<close> is true
  exactly when the returned list is not empty and all its entries are verified.
\<close>

theorem extractive_quotes_verified:
  assumes "\<not> str_in ''NOT_FOUND'' (upper response)"
  shows "(\<forall>(q, k) \<in> set (findall_quotes response). cited_in_range ctx k \<longrightarrow>
            (\<exists>v \<in> set (quotes (parse_extractive_response response ctx)).
               quote v = q \<and> VerifiedQuote.citation v = ''['' @ k @ '']''
             \<and> verified v =
                 str_in (lower q) (lower (ContextChunk.content (ctx ! (int_of_str k - 1))))))
       \<and> (\<forall>v \<in> set (quotes (parse_extractive_response response ctx)).
            \<exists>(q, k) \<in> set (findall_quotes response). cited_in_range ctx k \<and> quote v = q
              \<and> verified v =
                  str_in (lower q) (lower (ContextChunk.content (ctx ! (int_of_str k - 1)))))
       \<and> length (quotes (parse_extractive_response response ctx))
           = length (filter (\<lambda>(q, k). cited_in_range ctx k) (findall_quotes response))
       \<and> all_verified (parse_extractive_response response ctx)
           = Some (quotes (parse_extractive_response response ctx) \<noteq> []
                   \<and> (\<forall>v \<in> set (quotes (parse_extractive_response response ctx)). verified v))"
proof -
  have q: "quotes (parse_extractive_response response ctx)
      = verify_quotes ctx (findall_quotes response)"
    using assms by (simp add: parse_extractive_response_def Let_def)
  have a: "all_verified (parse_extractive_response response ctx)
      = Some (verify_quotes ctx (findall_quotes response) \<noteq> []
              \<and> (\<forall>v \<in> set (verify_quotes ctx (findall_quotes response)). verified v))"
    using assms by (simp add: parse_extractive_response_def Let_def list_all_iff)
  show ?thesis
    unfolding q a
    using verify_quotes_complete [of _ _ "findall_quotes response" ctx]
      verify_quotes_sound [of _ ctx "findall_quotes response"]
      length_verify_quotes [of ctx "findall_quotes response"]
    by blast
qed

theorem extractive_quotes_verified_witness:
  "\<not> str_in ''NOT_FOUND'' (upper quoted_response)
   \<and> findall_quotes quoted_response
       = [(''Paris is the capital'', ''1''), (''It has 90 million inhabitants'', ''2'')]
   \<and> cited_in_range quoted_context ''1''
   \<and> map quote (quotes (parse_extractive_response quoted_response quoted_context))
       = [''Paris is the capital'']
   \<and> length (quotes (parse_extractive_response quoted_response quoted_context))
       = length (filter (\<lambda>(q, k). cited_in_range quoted_context k) (findall_quotes quoted_response))"
proof -
  have h: "\<not> str_in ''NOT_FOUND'' (upper quoted_response)"
    by code_simp
  have f: "findall_quotes quoted_response
       = [(''Paris is the capital'', ''1''), (''It has 90 million inhabitants'', ''2'')]"
    by code_simp
  have r: "cited_in_range quoted_context ''1''"
    by code_simp
  have m: "map quote (quotes (parse_extractive_response quoted_response quoted_context))
       = [''Paris is the capital'']"
    by code_simp
  show ?thesis
    using h f r m extractive_quotes_verified [OF h, of quoted_context] by blast
qed

text \<open>
  A quote that cites a chunk that does not exist is neither checked nor returned, and
  \<open>all_verified\<close> is true although that quote was never verified.
\<close>

theorem extractive_out_of_range_counterexample:
  "findall_quotes quoted_response
     = [(''Paris is the capital'', ''1''), (''It has 90 million inhabitants'', ''2'')]
   \<and> length quoted_context = 1
   \<and> map quote (quotes (parse_extractive_response quoted_response quoted_context))
       = [''Paris is the capital'']
   \<and> all_verified (parse_extractive_response quoted_response quoted_context) = Some True"
  by code_simp

section \<open>Properties of the retrieval service\<close>

lemma set_sorted_reverse: "set (sorted_reverse f xs) = set xs"
  by (simp add: sorted_reverse_def)

lemma set_slice_to: "set (slice_to k xs) \<subseteq> set xs"
  by (auto simp: slice_to_def dest: in_set_takeD)

lemma fold_update_self_Some:
  "map_of (fold (\<lambda>x m. AList.update (f x) x m) xs d0) k = Some v \<Longrightarrow>
   (v \<in> set xs \<and> f v = k) \<or> map_of d0 k = Some v"
proof (induction xs arbitrary: d0)
  case Nil
  then show ?case by simp
next
  case (Cons y ys)
  from Cons.prems have "map_of (fold (\<lambda>x m. AList.update (f x) x m) ys (AList.update (f y) y d0)) k = Some v"
    by simp
  from Cons.IH [OF this] show ?case
    by (auto simp: update_conv' split: if_splits)
qed

lemma fold_update_self_None:
  "map_of (fold (\<lambda>x m. AList.update (f x) x m) xs d0) k = None \<Longrightarrow> k \<notin> f ` set xs"
proof (induction xs arbitrary: d0)
  case Nil
  then show ?case by simp
next
  case (Cons y ys)
  from Cons.prems have n: "map_of (fold (\<lambda>x m. AList.update (f x) x m) ys (AList.update (f y) y d0)) k = None"
    by simp
  have "k \<noteq> f y"
  proof
    assume "k = f y"
    then have "k \<notin> f ` set ys \<Longrightarrow> False"
      using n by (simp add: fold_update_other update_conv')
    moreover have "k \<notin> f ` set ys"
      using Cons.IH [OF n] .
    ultimately show False by blast
  qed
  with Cons.IH [OF n] show ?case by simp
qed

lemma query_docs_Some:
  "map_of (query_docs d cs) k = Some doc \<Longrightarrow> doc \<in> set (documents d) \<and> Document.ident doc = k"
  unfolding query_docs_def Let_def
  by (drule fold_update_self_Some) auto

lemma query_docs_None:
  assumes "map_of (query_docs d cs) (Chunk.document_id c) = None" and "c \<in> set cs"
  shows "\<forall>doc \<in> set (documents d). Document.ident doc \<noteq> Chunk.document_id c"
proof -
  have "Chunk.document_id c \<notin> Document.ident `
      set (filter (\<lambda>doc. Document.ident doc \<in> set (map Chunk.document_id cs)) (documents d))"
    using assms(1) unfolding query_docs_def Let_def by (rule fold_update_self_None)
  then show ?thesis
    using assms(2) by (force simp: image_iff)
qed

lemma structural_score_of_eq:
  "structural_score_of query query_terms c =
     (if str_in (lower query) (lower (Chunk.content c)) then 1 / 2 else 0)
     + 3 / 10 * (of_nat (length (filter (\<lambda>t. str_in t (lower (Chunk.content c))) query_terms))
                 / of_nat (max (length query_terms) 1))
     + (if Chunk.chunk_type c = ''heading'' then 1 / 5 else 0)"
  by (simp add: structural_score_of_def Let_def)

lemma coverage_le_1:
  "(of_nat (length (filter P ts)) :: rat) / of_nat (max (length ts) 1) \<le> 1"
proof -
  have "length (filter P ts) \<le> length ts"
    by (rule length_filter_le)
  also have "\<dots> \<le> max (length ts) 1"
    by (rule max.cobounded1)
  finally have "length (filter P ts) \<le> max (length ts) 1" .
  then have "(of_nat (length (filter P ts)) :: rat) \<le> of_nat (max (length ts) 1)"
    by (simp only: of_nat_le_iff)
  moreover have "(0 :: rat) < of_nat (max (length ts) 1)"
    by simp
  ultimately show ?thesis
    by (simp add: divide_le_eq_1)
qed

lemma score_bound:
  "(x :: rat) \<le> 3 / 10 \<Longrightarrow> (if a then 1 / 2 else 0) + x + (if b then 1 / 5 else 0) \<le> 1"
  by auto

lemma structural_score_of_le_1: "structural_score_of query query_terms c \<le> 1"
proof -
  let ?cov = "(of_nat (length (filter (\<lambda>t. str_in t (lower (Chunk.content c))) query_terms)) :: rat)
                 / of_nat (max (length query_terms) 1)"
  have "?cov \<le> 1" by (rule coverage_le_1)
  then have "3 / 10 * ?cov \<le> 3 / 10 * 1"
    by (rule mult_left_mono) simp
  then have "3 / 10 * ?cov \<le> 3 / 10" by (simp only: mult_1_right)
  then show ?thesis
    unfolding structural_score_of_eq by (rule score_bound)
qed

lemma set_insert_by_id: "set (insert_by_id c xs) = insert c (set xs)"
  by (induction xs) auto

lemma set_order_by_id: "set (order_by_id cs) = set cs"
  by (induction cs) (simp_all add: order_by_id_def set_insert_by_id)

lemma structural_rerank_member:
  assumes "r \<in> set (structural_rerank d cands query query_terms)"
  shows "\<exists>c \<in> set (query_chunks d (map fst cands)).
           r = rerank_chunk cands (query_docs d (query_chunks d (map fst cands))) query query_terms c"
  using assms by (auto simp: structural_rerank_def Let_def split: if_splits)

lemma retrieve_member:
  assumes "retrieve d fts vi encode faiss_search query document_ids categories min_reliability top_k = Inr rs"
    and "r \<in> set rs"
  shows "\<exists>cands. r \<in> set (structural_rerank d cands query (extract_query_terms query))"
proof -
  obtain results where "rs = slice_to top_k (sorted_reverse RetrievedChunk.final_score results)"
    and res: "\<exists>cands. results = structural_rerank d cands query (extract_query_terms query)"
    using assms(1) by (auto simp: retrieve_def Let_def split: sum.splits)
  then have "r \<in> set results"
    using assms(2) set_slice_to set_sorted_reverse by fastforce
  with res show ?thesis by blast
qed

text \<open>
  C2 (as amended: the query and the terms are looked for in the lower-cased content). Every
  record returned by \<open>retrieve\<close> belongs to a chunk of the database; its structural score is
  0.5 if the lower-cased raw query is a substring of the lower-cased chunk content, plus 0.3
  times the fraction of the query terms that are substrings of the lower-cased content, plus
  0.2 if the chunk type is \<open>heading\<close>, and is at most 1; its final score is
  \<open>(0.3 bm25 + 0.5 dense + 0.2 structural)\<close> times the reliability score of the document
  with the chunk's document id (times 1 when there is no such document) times the confidence
  weight of the chunk.
\<close>

theorem retrieve_final_score:
  assumes "retrieve d fts vi encode faiss_search query document_ids categories min_reliability top_k = Inr rs"
    and "r \<in> set rs"
  shows "\<exists>c \<in> set (chunks d).
           RetrievedChunk.chunk_id r = Chunk.ident c
         \<and> RetrievedChunk.structural_score r =
             (if str_in (lower query) (lower (Chunk.content c)) then 1 / 2 else 0)
             + 3 / 10 * (of_nat (length (filter (\<lambda>t. str_in t (lower (Chunk.content c)))
                                          (extract_query_terms query)))
                         / of_nat (max (length (extract_query_terms query)) 1))
             + (if Chunk.chunk_type c = ''heading'' then 1 / 5 else 0)
         \<and> RetrievedChunk.structural_score r \<le> 1
         \<and> ((\<exists>doc \<in> set (documents d). Document.ident doc = Chunk.document_id c
               \<and> RetrievedChunk.final_score r =
                   (3 / 10 * bm25_score r + 5 / 10 * dense_score r
                    + 2 / 10 * RetrievedChunk.structural_score r)
                   * reliability_score doc * Chunk.confidence_weight c)
             \<or> ((\<forall>doc \<in> set (documents d). Document.ident doc \<noteq> Chunk.document_id c)
                 \<and> RetrievedChunk.final_score r =
                     (3 / 10 * bm25_score r + 5 / 10 * dense_score r
                      + 2 / 10 * RetrievedChunk.structural_score r)
                     * Chunk.confidence_weight c))"
proof -
  obtain cands where "r \<in> set (structural_rerank d cands query (extract_query_terms query))"
    using retrieve_member [OF assms] by blast
  then obtain c where c: "c \<in> set (query_chunks d (map fst cands))"
    and r: "r = rerank_chunk cands (query_docs d (query_chunks d (map fst cands))) query
                  (extract_query_terms query) c"
    using structural_rerank_member by blast
  let ?docs = "query_docs d (query_chunks d (map fst cands))"
  let ?terms = "extract_query_terms query"
  have cd: "c \<in> set (chunks d)"
    using c by (simp add: query_chunks_def set_order_by_id)
  have id: "RetrievedChunk.chunk_id r = Chunk.ident c"
    using r by (simp add: rerank_chunk_def Let_def)
  have st: "RetrievedChunk.structural_score r = structural_score_of query ?terms c"
    using r by (simp add: rerank_chunk_def Let_def)
  have fin: "RetrievedChunk.final_score r =
      (3 / 10 * bm25_score r + 5 / 10 * dense_score r + 2 / 10 * RetrievedChunk.structural_score r)
      * ((case map_of ?docs (Chunk.document_id c) of Some dc \<Rightarrow> reliability_score dc | None \<Rightarrow> 1)
         * Chunk.confidence_weight c)"
    using r
    by (simp add: rerank_chunk_def Let_def BM25_WEIGHT_def DENSE_WEIGHT_def STRUCTURAL_WEIGHT_def)
  have boost: "(\<exists>doc \<in> set (documents d). Document.ident doc = Chunk.document_id c
               \<and> RetrievedChunk.final_score r =
                   (3 / 10 * bm25_score r + 5 / 10 * dense_score r
                    + 2 / 10 * RetrievedChunk.structural_score r)
                   * reliability_score doc * Chunk.confidence_weight c)
             \<or> ((\<forall>doc \<in> set (documents d). Document.ident doc \<noteq> Chunk.document_id c)
                 \<and> RetrievedChunk.final_score r =
                     (3 / 10 * bm25_score r + 5 / 10 * dense_score r
                      + 2 / 10 * RetrievedChunk.structural_score r)
                     * Chunk.confidence_weight c)"
  proof (cases "map_of ?docs (Chunk.document_id c)")
    case None
    then have "\<forall>doc \<in> set (documents d). Document.ident doc \<noteq> Chunk.document_id c"
      using c by (rule query_docs_None)
    moreover have "RetrievedChunk.final_score r =
        (3 / 10 * bm25_score r + 5 / 10 * dense_score r + 2 / 10 * RetrievedChunk.structural_score r)
        * Chunk.confidence_weight c"
      using fin None by simp
    ultimately show ?thesis by blast
  next
    case (Some doc)
    then have "doc \<in> set (documents d) \<and> Document.ident doc = Chunk.document_id c"
      by (rule query_docs_Some)
    moreover have "RetrievedChunk.final_score r =
        (3 / 10 * bm25_score r + 5 / 10 * dense_score r + 2 / 10 * RetrievedChunk.structural_score r)
        * reliability_score doc * Chunk.confidence_weight c"
      using fin Some by simp
    ultimately show ?thesis by blast
  qed
  show ?thesis
    using cd id st boost structural_score_of_eq [of query ?terms c]
      structural_score_of_le_1 [of query ?terms c]
    by (intro bexI [of _ c]) simp_all
qed


theorem retrieve_final_score_witness:
  "retrieve example_db example_fts example_index example_encode example_faiss ''Alpha'' None None
     (1 / 2) 10 = Inr [retrieved_a (4 / 5) (23 / 50), retrieved_b]
   \<and> retrieved_a (4 / 5) (23 / 50) \<in> set [retrieved_a (4 / 5) (23 / 50), retrieved_b]
   \<and> (\<exists>c \<in> set (chunks example_db).
         RetrievedChunk.chunk_id (retrieved_a (4 / 5) (23 / 50)) = Chunk.ident c
       \<and> RetrievedChunk.structural_score (retrieved_a (4 / 5) (23 / 50)) =
           (if str_in (lower ''Alpha'') (lower (Chunk.content c)) then 1 / 2 else 0)
           + 3 / 10 * (of_nat (length (filter (\<lambda>t. str_in t (lower (Chunk.content c)))
                                        (extract_query_terms ''Alpha'')))
                       / of_nat (max (length (extract_query_terms ''Alpha'')) 1))
           + (if Chunk.chunk_type c = ''heading'' then 1 / 5 else 0)
       \<and> RetrievedChunk.structural_score (retrieved_a (4 / 5) (23 / 50)) \<le> 1)"
proof -
  have h: "retrieve example_db example_fts example_index example_encode example_faiss ''Alpha''
      None None (1 / 2) 10 = Inr [retrieved_a (4 / 5) (23 / 50), retrieved_b]"
    by code_simp
  have m: "retrieved_a (4 / 5) (23 / 50) \<in> set [retrieved_a (4 / 5) (23 / 50), retrieved_b]"
    by simp
  show ?thesis
    using h m retrieve_final_score [OF h m] by blast
qed

text \<open>
  The query \<open>Alpha\<close> gives the chunk with content \<open>Alpha beta\<close> the structural score 0.8,
  where the lower-cased query is not a substring of the content as it is stored.
\<close>

theorem structural_score_case_counterexample:
  "retrieve example_db example_fts example_index example_encode example_faiss ''Alpha'' None None
     (1 / 2) 10 = Inr [retrieved_a (4 / 5) (23 / 50), retrieved_b]
   \<and> RetrievedChunk.chunk_id (retrieved_a (4 / 5) (23 / 50)) = Chunk.ident chunk_a
   \<and> RetrievedChunk.structural_score (retrieved_a (4 / 5) (23 / 50)) = 4 / 5
   \<and> spec_structural_score ''Alpha'' (extract_query_terms ''Alpha'') chunk_a = 0"
  by code_simp








section \<open>Properties of the context service\<close>

lemma pack_parts_of:
  "pack m i cs parts ccs = (parts', ccs') \<Longrightarrow> parts = parts_of ccs \<Longrightarrow> parts' = parts_of ccs'"
proof (induction cs arbitrary: i parts ccs)
  case Nil
  then show ?case by auto
next
  case (Cons c rest)
  show ?case
  proof (cases "int (sum_list (map length parts) div 4)
                + int (length (formatted i (RetrievedChunk.content c)) div 4) > m")
    case True
    then show ?thesis using Cons.prems by (auto simp: Let_def)
  next
    case False
    let ?cc = "\<lparr>marker = ''['' @ str_nat i @ '']'',
                 ContextChunk.content = RetrievedChunk.content c,
                 ContextChunk.citation = citation_of c,
                 ContextChunk.chunk_id = RetrievedChunk.chunk_id c\<rparr>"
    have p: "pack m (i + 1) rest (parts @ [formatted i (RetrievedChunk.content c)]) (ccs @ [?cc])
             = (parts', ccs')"
      using Cons.prems(1) False by (simp add: Let_def)
    have "parts @ [formatted i (RetrievedChunk.content c)] = parts_of (ccs @ [?cc])"
      using Cons.prems(2) by (simp add: parts_of_def formatted_def)
    with Cons.IH [OF p] show ?thesis .
  qed
qed

lemma pack_check:
  "pack m i cs parts ccs = (parts', ccs') \<Longrightarrow>
   (parts \<noteq> [] \<longrightarrow> int (estimated_tokens_of (butlast parts)) + int (length (last parts) div 4) \<le> m) \<Longrightarrow>
   (parts' \<noteq> [] \<longrightarrow> int (estimated_tokens_of (butlast parts')) + int (length (last parts') div 4) \<le> m)"
proof (induction cs arbitrary: i parts ccs)
  case Nil
  then show ?case by simp
next
  case (Cons c rest)
  show ?case
  proof (cases "int (sum_list (map length parts) div 4)
                + int (length (formatted i (RetrievedChunk.content c)) div 4) > m")
    case True
    then show ?thesis using Cons.prems by (simp add: Let_def)
  next
    case False
    let ?cc = "\<lparr>marker = ''['' @ str_nat i @ '']'',
                 ContextChunk.content = RetrievedChunk.content c,
                 ContextChunk.citation = citation_of c,
                 ContextChunk.chunk_id = RetrievedChunk.chunk_id c\<rparr>"
    have p: "pack m (i + 1) rest (parts @ [formatted i (RetrievedChunk.content c)]) (ccs @ [?cc])
             = (parts', ccs')"
      using Cons.prems(1) False by (simp add: Let_def)
    show ?thesis
      by (rule Cons.IH [OF p]) (use False in \<open>simp add: estimated_tokens_of_def\<close>)
  qed
qed

lemma pack_prefix:
  "pack m i cs parts ccs = (parts', ccs') \<Longrightarrow>
   \<exists>n \<le> length cs.
      map ContextChunk.chunk_id ccs'
        = map ContextChunk.chunk_id ccs @ map RetrievedChunk.chunk_id (take n cs)
    \<and> map ContextChunk.content ccs'
        = map ContextChunk.content ccs @ map RetrievedChunk.content (take n cs)
    \<and> (n < length cs \<longrightarrow>
          int (estimated_tokens_of parts')
          + int (length (formatted (i + n) (RetrievedChunk.content (cs ! n))) div 4) > m)"
proof (induction cs arbitrary: i parts ccs)
  case Nil
  then show ?case by simp
next
  case (Cons c rest)
  show ?case
  proof (cases "int (sum_list (map length parts) div 4)
                + int (length (formatted i (RetrievedChunk.content c)) div 4) > m")
    case True
    then have "parts' = parts" "ccs' = ccs"
      using Cons.prems by (simp_all add: Let_def)
    then show ?thesis
      using True by (intro exI [of _ 0]) (simp add: estimated_tokens_of_def)
  next
    case False
    let ?cc = "\<lparr>marker = ''['' @ str_nat i @ '']'',
                 ContextChunk.content = RetrievedChunk.content c,
                 ContextChunk.citation = citation_of c,
                 ContextChunk.chunk_id = RetrievedChunk.chunk_id c\<rparr>"
    have p: "pack m (i + 1) rest (parts @ [formatted i (RetrievedChunk.content c)]) (ccs @ [?cc])
             = (parts', ccs')"
      using Cons.prems(1) False by (simp add: Let_def)
    from Cons.IH [OF p] obtain n where n: "n \<le> length rest"
      "map ContextChunk.chunk_id ccs'
        = map ContextChunk.chunk_id (ccs @ [?cc]) @ map RetrievedChunk.chunk_id (take n rest)"
      "map ContextChunk.content ccs'
        = map ContextChunk.content (ccs @ [?cc]) @ map RetrievedChunk.content (take n rest)"
      "n < length rest \<longrightarrow>
          int (estimated_tokens_of parts')
          + int (length (formatted (i + 1 + n) (RetrievedChunk.content (rest ! n))) div 4) > m"
      by blast
    show ?thesis
      using n by (intro exI [of _ "Suc n"]) simp
  qed
qed

lemma estimate_append:
  "parts \<noteq> [] \<Longrightarrow>
   estimated_tokens_of parts \<le> estimated_tokens_of (butlast parts) + length (last parts) div 4 + 1"
proof -
  assume "parts \<noteq> []"
  then have "parts = butlast parts @ [last parts]" by simp
  then have "sum_list (map length parts)
      = sum_list (map length (butlast parts)) + length (last parts)"
    by (metis (no_types, lifting) list.simps(8,9) map_append sum_list.Cons sum_list.Nil
        sum_list_append add.right_neutral)
  then show ?thesis
    unfolding estimated_tokens_of_def by presburger
qed

text \<open>
  C9 (as amended: the bound is \<open>max_tokens + 1\<close>, on the formatted parts only).
  \<open>build_context\<close> takes the deduplicated chunks in order and stops at the first one for
  which (characters of the parts taken so far) div 4 + (characters of its formatted part) div 4
  exceeds \<open>max_tokens\<close>. Each part taken passed that test, so the estimate of the parts
  taken, their characters div 4, is at most \<open>max_tokens + 1\<close>. The header and the
  separators of the emitted string are not counted.
\<close>

theorem build_context_budget:
  assumes "build_context max_tokens cs query = (context_string, context_chunks)"
  shows "(\<exists>n \<le> length (unique_chunks cs).
            map ContextChunk.chunk_id context_chunks
              = map RetrievedChunk.chunk_id (take n (unique_chunks cs))
          \<and> map ContextChunk.content context_chunks
              = map RetrievedChunk.content (take n (unique_chunks cs))
          \<and> (cs \<noteq> [] \<and> n < length (unique_chunks cs) \<longrightarrow>
                int (estimated_tokens_of (parts_of context_chunks))
                + int (length (formatted (1 + n) (RetrievedChunk.content (unique_chunks cs ! n))) div 4)
                > max_tokens))
       \<and> (context_chunks \<noteq> [] \<longrightarrow>
             int (estimated_tokens_of (butlast (parts_of context_chunks)))
             + int (length (last (parts_of context_chunks)) div 4) \<le> max_tokens
           \<and> int (estimated_tokens_of (parts_of context_chunks)) \<le> max_tokens + 1)
       \<and> (cs \<noteq> [] \<longrightarrow>
             context_string
               = context_header @ join [CHR 0x0A, CHR 0x0A] (parts_of context_chunks))"
proof (cases "cs = []")
  case True
  then have "context_chunks = []"
    using assms by (simp add: build_context_def)
  then show ?thesis
    using True by (intro conjI exI [of _ 0]) simp_all
next
  case False
  obtain parts where p: "pack max_tokens 1 (unique_chunks cs) [] [] = (parts, context_chunks)"
    and s: "context_string = context_header @ join [CHR 0x0A, CHR 0x0A] parts"
    using assms False by (auto simp: build_context_def Let_def split: prod.splits)
  have parts: "parts = parts_of context_chunks"
    using pack_parts_of [OF p] by (simp add: parts_of_def)
  have chk: "parts \<noteq> [] \<longrightarrow>
      int (estimated_tokens_of (butlast parts)) + int (length (last parts) div 4) \<le> max_tokens"
    using pack_check [OF p] by simp
  have ne: "context_chunks \<noteq> [] \<Longrightarrow> parts \<noteq> []"
    using parts by (simp add: parts_of_def)
  have bound: "context_chunks \<noteq> [] \<longrightarrow> int (estimated_tokens_of parts) \<le> max_tokens + 1"
  proof
    assume "context_chunks \<noteq> []"
    then have n: "parts \<noteq> []" by (rule ne)
    from estimate_append [OF n] chk n show "int (estimated_tokens_of parts) \<le> max_tokens + 1"
      by linarith
  qed
  from pack_prefix [OF p] obtain n where n: "n \<le> length (unique_chunks cs)"
    "map ContextChunk.chunk_id context_chunks
       = map RetrievedChunk.chunk_id (take n (unique_chunks cs))"
    "map ContextChunk.content context_chunks
       = map RetrievedChunk.content (take n (unique_chunks cs))"
    "n < length (unique_chunks cs) \<longrightarrow>
       int (estimated_tokens_of parts)
       + int (length (formatted (1 + n) (RetrievedChunk.content (unique_chunks cs ! n))) div 4)
       > max_tokens"
    by auto
  show ?thesis
    using n chk ne bound s unfolding parts by blast
qed


theorem build_context_budget_witness:
  "build_context 2 two_chunks ''q''
     = (fst (build_context 2 two_chunks ''q''), snd (build_context 2 two_chunks ''q''))
   \<and> two_chunks \<noteq> []
   \<and> map ContextChunk.content (snd (build_context 2 two_chunks ''q'')) = [''abc'', ''x'']
   \<and> snd (build_context 2 two_chunks ''q'') \<noteq> []
   \<and> int (estimated_tokens_of (butlast (parts_of (snd (build_context 2 two_chunks ''q'')))))
       + int (length (last (parts_of (snd (build_context 2 two_chunks ''q'')))) div 4) \<le> 2
   \<and> int (estimated_tokens_of (parts_of (snd (build_context 2 two_chunks ''q'')))) \<le> 2 + 1
   \<and> fst (build_context 2 two_chunks ''q'')
       = context_header @ join [CHR 0x0A, CHR 0x0A] (parts_of (snd (build_context 2 two_chunks ''q'')))"
proof -
  have h: "build_context 2 two_chunks ''q''
     = (fst (build_context 2 two_chunks ''q''), snd (build_context 2 two_chunks ''q''))"
    by simp
  have c: "two_chunks \<noteq> []"
    by code_simp
  have m: "map ContextChunk.content (snd (build_context 2 two_chunks ''q'')) = [''abc'', ''x'']"
    by code_simp
  then have n: "snd (build_context 2 two_chunks ''q'') \<noteq> []"
    by auto
  show ?thesis
    using h c m n build_context_budget [OF h] by blast
qed

text \<open>
  With \<open>max_tokens = 2\<close> two chunks are taken whose parts have 12 characters, an estimate of
  3 tokens; the emitted string has 72 characters.
\<close>

theorem build_context_budget_counterexample:
  "map ContextChunk.content (snd (build_context 2 two_chunks ''q'')) = [''abc'', ''x'']
   \<and> parts_of (snd (build_context 2 two_chunks ''q'')) = [''[1] abc'', ''[2] x'']
   \<and> int (estimated_tokens_of (parts_of (snd (build_context 2 two_chunks ''q'')))) > 2
   \<and> int (length (fst (build_context 2 two_chunks ''q'')) div 4) > 2"
  by code_simp

section \<open>Properties of the ingestion service\<close>

lemma join_merge:
  "join sep (xs @ [a @ sep @ b] @ ys) = join sep (xs @ [a, b] @ ys)"
  by (cases xs) simp_all

lemma merge_loop_text:
  "join '' '' (map Chunk.content (merge_loop m cs merged buf))
   = join '' '' (map Chunk.content (merged @ (case buf of None \<Rightarrow> [] | Some b \<Rightarrow> [b]) @ cs))"
proof (induction cs arbitrary: merged buf)
  case Nil
  show ?case
  proof (cases buf)
    case None
    then show ?thesis by simp
  next
    case (Some b)
    show ?thesis
    proof (cases "merged = []")
      case True
      then show ?thesis using Some by simp
    next
      case False
      then have m: "merged = butlast merged @ [last merged]" by simp
      have "join '' '' (map Chunk.content (butlast merged)
              @ [Chunk.content (last merged) @ '' '' @ Chunk.content b] @ [])
          = join '' '' (map Chunk.content (butlast merged)
              @ [Chunk.content (last merged), Chunk.content b] @ [])"
        by (rule join_merge)
      moreover have "map Chunk.content merged
          = map Chunk.content (butlast merged) @ [Chunk.content (last merged)]"
        using m by (metis list.simps(8,9) map_append)
      ultimately show ?thesis
        using Some False by simp
    qed
  qed
next
  case (Cons c rest)
  show ?case
  proof (cases "length (Chunk.content c) < m \<and> Chunk.chunk_type c \<noteq> ''heading''")
    case True
    show ?thesis
    proof (cases buf)
      case None
      then show ?thesis using True Cons.IH [of merged "Some c"] by simp
    next
      case (Some b)
      have "join '' '' (map Chunk.content merged
              @ [Chunk.content b @ '' '' @ Chunk.content c] @ map Chunk.content rest)
          = join '' '' (map Chunk.content merged
              @ [Chunk.content b, Chunk.content c] @ map Chunk.content rest)"
        by (rule join_merge)
      then show ?thesis
        using True Some
          Cons.IH [of merged "Some (b\<lparr>Chunk.content := Chunk.content b @ '' '' @ Chunk.content c\<rparr>)"]
        by simp
    qed
  next
    case False
    show ?thesis
    proof (cases buf)
      case None
      then show ?thesis using False Cons.IH [of "merged @ [c]" None] by auto
    next
      case (Some b)
      show ?thesis
      proof (cases "length (Chunk.content b) < m")
        case True
        have "join '' '' (map Chunk.content merged
                @ [Chunk.content b @ '' '' @ Chunk.content c] @ map Chunk.content rest)
            = join '' '' (map Chunk.content merged
                @ [Chunk.content b, Chunk.content c] @ map Chunk.content rest)"
          by (rule join_merge)
        then show ?thesis
          using True False Some
            Cons.IH [of "merged @ [c\<lparr>Chunk.content := Chunk.content b @ '' '' @ Chunk.content c\<rparr>]" None]
          by auto
      next
        case b: False
        then show ?thesis
          using False Some Cons.IH [of "merged @ [b] @ [c]" None] by auto
      qed
    qed
  qed
qed

lemma merge_small_chunks_text:
  "join '' '' (map Chunk.content (merge_small_chunks cs m)) = join '' '' (map Chunk.content cs)"
  by (simp add: merge_small_chunks_def merge_loop_text)

lemma merge_loop_headings:
  "(case buf of None \<Rightarrow> True | Some b \<Rightarrow> Chunk.chunk_type b \<noteq> ''heading'') \<Longrightarrow>
   filter (\<lambda>t. t = ''heading'') (map Chunk.chunk_type (merge_loop m cs merged buf))
   = filter (\<lambda>t. t = ''heading'') (map Chunk.chunk_type (merged @ cs))"
proof (induction cs arbitrary: merged buf)
  case Nil
  show ?case
  proof (cases buf)
    case None
    then show ?thesis by simp
  next
    case (Some b)
    show ?thesis
    proof (cases "merged = []")
      case True
      then show ?thesis using Some Nil by simp
    next
      case False
      then have "map Chunk.chunk_type merged
          = map Chunk.chunk_type (butlast merged) @ [Chunk.chunk_type (last merged)]"
        by (metis append_butlast_last_id list.simps(8,9) map_append)
      then show ?thesis
        using Some False by simp
    qed
  qed
next
  case (Cons c rest)
  show ?case
  proof (cases "length (Chunk.content c) < m \<and> Chunk.chunk_type c \<noteq> ''heading''")
    case True
    show ?thesis
    proof (cases buf)
      case None
      then show ?thesis using True Cons.IH [of "Some c" merged] by simp
    next
      case (Some b)
      then show ?thesis
        using True Cons.prems
          Cons.IH [of "Some (b\<lparr>Chunk.content := Chunk.content b @ '' '' @ Chunk.content c\<rparr>)" merged]
        by simp
    qed
  next
    case False
    show ?thesis
    proof (cases buf)
      case None
      then show ?thesis using False Cons.IH [of None "merged @ [c]"] by auto
    next
      case (Some b)
      show ?thesis
      proof (cases "length (Chunk.content b) < m")
        case True
        then show ?thesis
          using False Some
            Cons.IH [of None "merged @ [c\<lparr>Chunk.content := Chunk.content b @ '' '' @ Chunk.content c\<rparr>]"]
          by auto
      next
        case b: False
        then show ?thesis
          using False Some Cons.prems Cons.IH [of None "merged @ [b] @ [c]"] by auto
      qed
    qed
  qed
qed

lemma merge_small_chunks_headings:
  "length (filter (\<lambda>c. Chunk.chunk_type c = ''heading'') (merge_small_chunks cs m))
   = length (filter (\<lambda>c. Chunk.chunk_type c = ''heading'') cs)"
proof -
  have "filter (\<lambda>t. t = ''heading'') (map Chunk.chunk_type (merge_small_chunks cs m))
      = filter (\<lambda>t. t = ''heading'') (map Chunk.chunk_type cs)"
    by (simp add: merge_small_chunks_def merge_loop_headings)
  then have "length (filter (\<lambda>t. t = ''heading'') (map Chunk.chunk_type (merge_small_chunks cs m)))
      = length (filter (\<lambda>t. t = ''heading'') (map Chunk.chunk_type cs))"
    by simp
  then show ?thesis
    by (simp add: filter_map comp_def)
qed

lemma merge_loop_big_prefix:
  "\<forall>c \<in> set pre. \<not> (length (Chunk.content c) < m \<and> Chunk.chunk_type c \<noteq> ''heading'') \<Longrightarrow>
   merge_loop m (pre @ rest) merged None = merge_loop m rest (merged @ pre) None"
  by (induction pre arbitrary: merged) auto

lemma merge_into_following:
  assumes "\<forall>c \<in> set pre. \<not> (length (Chunk.content c) < m \<and> Chunk.chunk_type c \<noteq> ''heading'')"
    and "length (Chunk.content s) < m \<and> Chunk.chunk_type s \<noteq> ''heading''"
    and "\<not> (length (Chunk.content c) < m \<and> Chunk.chunk_type c \<noteq> ''heading'')"
  shows "merge_small_chunks (pre @ [s, c]) m
       = pre @ [c\<lparr>Chunk.content := Chunk.content s @ '' '' @ Chunk.content c\<rparr>]"
proof -
  have "merge_small_chunks (pre @ [s, c]) m = merge_loop m (pre @ [s, c]) [] None"
    by (simp add: merge_small_chunks_def)
  also have "\<dots> = merge_loop m [s, c] pre None"
    using merge_loop_big_prefix [OF assms(1), of "[s, c]" "[]"] by simp
  also have "\<dots> = pre @ [c\<lparr>Chunk.content := Chunk.content s @ '' '' @ Chunk.content c\<rparr>]"
    using assms(2,3) by auto
  finally show ?thesis .
qed

lemma merge_trailing:
  assumes "\<forall>c \<in> set pre. \<not> (length (Chunk.content c) < m \<and> Chunk.chunk_type c \<noteq> ''heading'')"
    and "pre \<noteq> []"
    and "length (Chunk.content s) < m \<and> Chunk.chunk_type s \<noteq> ''heading''"
  shows "merge_small_chunks (pre @ [s]) m
       = butlast pre @ [(last pre)\<lparr>Chunk.content := Chunk.content (last pre) @ '' '' @ Chunk.content s\<rparr>]"
proof -
  have "length (pre @ [s]) \<ge> 2"
    using assms(2) by (cases pre) auto
  then have "merge_small_chunks (pre @ [s]) m = merge_loop m (pre @ [s]) [] None"
    by (simp add: merge_small_chunks_def)
  also have "\<dots> = merge_loop m [s] pre None"
    using merge_loop_big_prefix [OF assms(1), of "[s]" "[]"] by simp
  also have "\<dots> = butlast pre @
      [(last pre)\<lparr>Chunk.content := Chunk.content (last pre) @ '' '' @ Chunk.content s\<rparr>]"
    using assms(2,3) by auto
  finally show ?thesis .
qed


text \<open>
  C6 (as amended: a small chunk goes into the chunk that follows it, headings included). The
  small-chunk merge keeps the text: the contents joined by spaces are the same before and
  after. It keeps the heading chunks, none of which is merged into another chunk: their number
  is the same before and after. A chunk with fewer than \<open>min_size\<close> characters that is not
  a heading and stands between chunks that are not small is merged into the chunk that
  follows it, be it a heading or not, and not into the chunk before it; when it is the last
  chunk, it is merged into the chunk before it, be it a heading or not.
\<close>

theorem merge_small_chunks_behaviour:
  "join '' '' (map Chunk.content (merge_small_chunks cs m)) = join '' '' (map Chunk.content cs)
   \<and> length (filter (\<lambda>c. Chunk.chunk_type c = ''heading'') (merge_small_chunks cs m))
       = length (filter (\<lambda>c. Chunk.chunk_type c = ''heading'') cs)
   \<and> ((\<forall>p \<in> set pre. \<not> small_chunk m p) \<and> small_chunk m s \<and> \<not> small_chunk m c \<longrightarrow>
         merge_small_chunks (pre @ [s, c]) m
           = pre @ [c\<lparr>Chunk.content := Chunk.content s @ '' '' @ Chunk.content c\<rparr>])
   \<and> ((\<forall>p \<in> set pre. \<not> small_chunk m p) \<and> pre \<noteq> [] \<and> small_chunk m s \<longrightarrow>
         merge_small_chunks (pre @ [s]) m
           = butlast pre @
               [(last pre)\<lparr>Chunk.content := Chunk.content (last pre) @ '' '' @ Chunk.content s\<rparr>])"
  using merge_small_chunks_text [of cs m] merge_small_chunks_headings [of cs m]
    merge_into_following [of pre m s c] merge_trailing [of pre m s]
  unfolding small_chunk_def by blast

theorem merge_small_chunks_behaviour_witness:
  "\<not> small_chunk 100 (para long_a) \<and> small_chunk 100 (para ''small'')
   \<and> \<not> small_chunk 100 (heading ''Refund Policy'') \<and> [para long_a] \<noteq> []
   \<and> merge_small_chunks ([para long_a] @ [para ''small'', heading ''Refund Policy'']) 100
       = [para long_a] @
           [(heading ''Refund Policy'')
              \<lparr>Chunk.content := Chunk.content (para ''small'') @ '' ''
                                  @ Chunk.content (heading ''Refund Policy'')\<rparr>]
   \<and> merge_small_chunks ([para long_a] @ [para ''small'']) 100
       = butlast [para long_a] @
           [(last [para long_a])
              \<lparr>Chunk.content := Chunk.content (last [para long_a]) @ '' ''
                                  @ Chunk.content (para ''small'')\<rparr>]"
proof -
  have a: "\<not> small_chunk 100 (para long_a)"
    by code_simp
  have b: "small_chunk 100 (para ''small'')"
    by code_simp
  have c: "\<not> small_chunk 100 (heading ''Refund Policy'')"
    by code_simp
  have p: "\<forall>p \<in> set [para long_a]. \<not> small_chunk 100 p"
    using a by simp
  have n: "[para long_a] \<noteq> []"
    by simp
  show ?thesis
    using a b c p n
      merge_small_chunks_behaviour [of "[]" 100 "[para long_a]" "para ''small''"
        "heading ''Refund Policy''"]
    by blast
qed

text \<open>
  A small paragraph between two long paragraphs is merged into the second one, and a small
  paragraph after a heading is merged into the heading.
\<close>

theorem merge_into_following_counterexample:
  "map Chunk.content (merge_small_chunks [para long_a, para ''small'', para long_b] 100)
     = [long_a, ''small '' @ long_b]
   \<and> map Chunk.content (merge_small_chunks [heading ''Refund Policy'', para ''We refund.''] 100)
     = [''Refund Policy We refund.'']
   \<and> map Chunk.chunk_type (merge_small_chunks [heading ''Refund Policy'', para ''We refund.''] 100)
     = [''heading'']"
  by code_simp

lemma sequence_index_paragraph_chunk [simp]:
  "sequence_index (paragraph_chunk sha doc_id page cur seq) = seq"
  by (simp add: paragraph_chunk_def Let_def)

lemma flush_chunk_ok: "seq_ok st \<Longrightarrow> seq_ok (flush_chunk sha doc_id page st)"
  by (auto simp: seq_ok_def flush_chunk_def split: prod.splits)

lemma add_piece_ok: "seq_ok st \<Longrightarrow> seq_ok (add_piece sha doc_id page piece st)"
proof -
  assume a: "seq_ok st"
  obtain acc cur len seq where st: "st = (acc, cur, len, seq)"
    by (cases st) auto
  let ?st1 = "if len + length piece > CHUNK_SIZE \<and> cur \<noteq> []
              then flush_chunk sha doc_id page st else st"
  have "seq_ok ?st1"
    using a flush_chunk_ok by simp
  moreover obtain acc1 cur1 len1 seq1 where s1: "?st1 = (acc1, cur1, len1, seq1)"
    by (cases ?st1) auto
  ultimately have "map sequence_index acc1 = [0..<seq1]"
    by (simp add: seq_ok_def)
  moreover have "add_piece sha doc_id page piece st
      = (acc1, cur1 @ [piece], len1 + length piece + 1, seq1)"
    using s1 unfolding add_piece_def st by simp
  ultimately show ?thesis
    by (simp add: seq_ok_def)
qed

lemma step_sentence_ok: "seq_ok st \<Longrightarrow> seq_ok (step_sentence sha doc_id page sent st)"
  by (simp add: step_sentence_def Let_def add_piece_ok)

lemma fold_ok:
  "(\<And>x st. seq_ok st \<Longrightarrow> seq_ok (f x st)) \<Longrightarrow> seq_ok st \<Longrightarrow> seq_ok (fold f xs st)"
  by (induction xs arbitrary: st) auto

lemma step_paragraph_ok: "seq_ok st \<Longrightarrow> seq_ok (step_paragraph sha doc_id page pg st)"
proof -
  assume a: "seq_ok st"
  obtain acc cur len seq where st: "st = (acc, cur, len, seq)"
    by (cases st) auto
  have "seq_ok (if cur \<noteq> [] then flush_chunk sha doc_id page st else st)"
    using a flush_chunk_ok by simp
  then have "seq_ok (fold (step_sentence sha doc_id page) (split_after_punct False (strip pg))
      (if cur \<noteq> [] then flush_chunk sha doc_id page st else st))"
    by (intro fold_ok step_sentence_ok)
  then show ?thesis
    using a unfolding step_paragraph_def Let_def st by (simp add: add_piece_ok)
qed

text \<open>
  One call of \<open>_chunk_text_with_structure\<close> numbers its chunks 0, 1, 2, ... without gaps:
  this is the numbering that a text file gets.
\<close>

lemma chunk_text_with_structure_sequence:
  "map sequence_index (chunk_text_with_structure sha txt doc_id page)
   = [0..<length (chunk_text_with_structure sha txt doc_id page)]"
proof -
  let ?st = "fold (step_paragraph sha doc_id page) (split_paragraphs txt) ([], [], 0, 0)"
  have "seq_ok ([], [], 0, 0)"
    by (simp add: seq_ok_def)
  then have ok: "seq_ok ?st"
    by (intro fold_ok step_paragraph_ok)
  obtain acc cur len seq where st: "?st = (acc, cur, len, seq)"
    by (cases ?st) auto
  have m: "map sequence_index acc = [0..<seq]"
    using ok st by (simp add: seq_ok_def)
  then have l: "length acc = seq"
    by (metis length_map length_upt minus_nat.diff_0)
  show ?thesis
    unfolding chunk_text_with_structure_def st using m l by simp
qed

text \<open>
  C7. The sequence indices of the chunks of a document should be 0, 1, 2, ... in insertion
  order. \<open>_process_pdf\<close> calls \<open>_chunk_text_with_structure\<close> once for each page, and each
  call starts counting at 0: the two chunks of a PDF of two pages are both stored with
  sequence index 0.
\<close>

theorem pdf_sequence_index_repeats:
  "fst (ingest_file empty_session 7 (\<lambda>s. s) ''doc-1'' example_uuid two_page_pdf None)
     = Inr ((new_document ''doc-1'' two_page_pdf None)
              \<lparr>page_count := 2, status := INDEXED, chunk_count := 2, indexed_at := Some 7\<rparr>)
   \<and> map Chunk.document_id
         (chunks (committed (snd (ingest_file empty_session 7 (\<lambda>s. s) ''doc-1'' example_uuid
                                    two_page_pdf None))))
       = [''doc-1'', ''doc-1'']
   \<and> map Chunk.content
         (chunks (committed (snd (ingest_file empty_session 7 (\<lambda>s. s) ''doc-1'' example_uuid
                                    two_page_pdf None))))
       = [''First page.'', ''Second page.'']
   \<and> map sequence_index
         (chunks (committed (snd (ingest_file empty_session 7 (\<lambda>s. s) ''doc-1'' example_uuid
                                    two_page_pdf None))))
       = [0, 0]"
  by code_simp

lemma replaced_row:
  "d \<in> set (map (\<lambda>x. if k x = u then r else x) xs) \<Longrightarrow> k d = u \<Longrightarrow> d = r"
proof (induction xs)
  case Nil
  then show ?case by simp
next
  case (Cons x xs)
  show ?case
  proof (cases "d = (if k x = u then r else x)")
    case True
    show ?thesis
    proof (cases "k x = u")
      case k: True
      with True show ?thesis by simp
    next
      case k: False
      with True have "d = x" by simp
      with k Cons.prems(2) show ?thesis by simp
    qed
  next
    case False
    with Cons.prems(1) have "d \<in> set (map (\<lambda>x. if k x = u then r else x) xs)"
      by simp
    then show ?thesis
      using Cons.IH Cons.prems(2) by blast
  qed
qed

text \<open>
  A processor writes nothing to the document but the page count.
\<close>

lemma process_document_ident:
  "Document.ident (fst (process_document sha document f)) = Document.ident document"
  by (cases "file_type document")
     (simp_all add: process_document_def process_pdf_def split: sum.splits)

text \<open>
  When the processing of the document raises an error and the database accepts the rows,
  \<open>ingest_file\<close> lets that error leave the call, the committed row of the new id is the
  document as the processor left it, with status \<open>FAILED\<close> and the message of the error,
  and the committed chunk table is the chunk table from before the call: the chunks are
  added to the session only after the processor has returned.
\<close>

lemma ingest_file_processing_failure:
  assumes "inactive s = None"
    and "find (\<lambda>d. file_hash d = sha256 f) (documents (store s)) = None"
    and "flush_error s (store (add_document s (new_document doc_uuid f metadata))) = None"
    and "process_document sha (new_document doc_uuid f metadata) f = (document1, Inl e)"
    and "flush_error s
           (store (update_document (add_document s (new_document doc_uuid f metadata))
                     (document1\<lparr>status := FAILED, error_message := Some (error_str e)\<rparr>))) = None"
  shows "fst (ingest_file s now sha doc_uuid chunk_uuid f metadata) = Inl e
       \<and> document1\<lparr>status := FAILED, error_message := Some (error_str e)\<rparr>
           \<in> set (documents (committed (snd (ingest_file s now sha doc_uuid chunk_uuid f metadata))))
       \<and> (\<forall>d \<in> set (documents (committed (snd (ingest_file s now sha doc_uuid chunk_uuid f metadata)))).
             Document.ident d = doc_uuid \<longrightarrow>
               status d = FAILED \<and> error_message d = Some (error_str e))
       \<and> chunks (committed (snd (ingest_file s now sha doc_uuid chunk_uuid f metadata)))
           = chunks (store s)"
proof -
  let ?doc = "new_document doc_uuid f metadata"
  let ?failed = "document1\<lparr>status := FAILED, error_message := Some (error_str e)\<rparr>"
  let ?s1 = "add_document s ?doc"
  let ?s2 = "update_document ?s1 ?failed"
  have i1: "inactive ?s1 = None" and fe1: "flush_error ?s1 = flush_error s"
    using assms(1) by (simp_all add: add_document_def)
  have i2: "inactive ?s2 = None" and fe2: "flush_error ?s2 = flush_error s"
    using assms(1) by (simp_all add: add_document_def update_document_def)
  have fl: "flush ?s1 = (Inr (), ?s1)"
    using i1 fe1 assms(3) by (simp add: flush_def)
  have co: "commit ?s2 = (Inr (), ?s2\<lparr>committed := store ?s2\<rparr>)"
    using i2 fe2 assms(5) by (simp add: commit_def flush_def)
  have r: "ingest_file s now sha doc_uuid chunk_uuid f metadata
      = (Inl e, ?s2\<lparr>committed := store ?s2\<rparr>)"
    using assms(1,2,4) fl co by (simp add: ingest_file_def except_handler_def Let_def)
  have id0: "Document.ident ?doc = doc_uuid"
    by (simp add: new_document_def Let_def)
  have "Document.ident document1 = Document.ident ?doc"
    using process_document_ident [of sha ?doc f] assms(4) by simp
  then have id: "Document.ident ?failed = doc_uuid"
    using id0 by simp
  have docs: "documents (store ?s2)
      = map (\<lambda>d. if Document.ident d = doc_uuid then ?failed else d) (documents (store s) @ [?doc])"
    using id by (simp add: update_document_def add_document_def)
  have cs: "chunks (store ?s2) = chunks (store s)"
    by (simp add: update_document_def add_document_def)
  have 1: "?failed \<in> set (documents (store ?s2))"
    unfolding docs using id0 by simp
  have 2: "\<forall>d \<in> set (documents (store ?s2)).
             Document.ident d = doc_uuid \<longrightarrow> status d = FAILED \<and> error_message d = Some (error_str e)"
    unfolding docs
  proof (intro ballI impI)
    fix d
    assume m: "d \<in> set (map (\<lambda>d. if Document.ident d = doc_uuid then ?failed else d)
                             (documents (store s) @ [?doc]))"
      and i: "Document.ident d = doc_uuid"
    from replaced_row [OF m i] have "d = ?failed" .
    then show "status d = FAILED \<and> error_message d = Some (error_str e)"
      by simp
  qed
  show ?thesis
    unfolding r using 1 2 cs by simp
qed

text \<open>
  An example of this: an image is ingested on a machine without the OCR packages, into a
  database that holds one document with two chunks.
\<close>

lemma ingest_file_scan_png:
  "fst (ingest_file one_doc_session 7 (\<lambda>s. s) ''doc-1'' example_uuid scan_png None)
     = Inl (ImportError ''pytesseract and Pillow required for OCR'')
   \<and> (new_document ''doc-1'' scan_png None)
         \<lparr>status := FAILED,
          error_message := Some ''pytesseract and Pillow required for OCR''\<rparr>
       \<in> set (documents (committed (snd (ingest_file one_doc_session 7 (\<lambda>s. s) ''doc-1''
                                           example_uuid scan_png None))))
   \<and> map status (documents (committed (snd (ingest_file one_doc_session 7 (\<lambda>s. s) ''doc-1''
                                               example_uuid scan_png None))))
       = [INDEXED, FAILED]
   \<and> chunks (committed (snd (ingest_file one_doc_session 7 (\<lambda>s. s) ''doc-1'' example_uuid
                                 scan_png None)))
       = [chunk_a, chunk_b]"
proof -
  let ?e = "ImportError ''pytesseract and Pillow required for OCR''"
  let ?doc = "new_document ''doc-1'' scan_png None"
  have h1: "inactive one_doc_session = None"
    by code_simp
  have h2: "find (\<lambda>d. file_hash d = sha256 scan_png) (documents (store one_doc_session)) = None"
    by code_simp
  have h3: "flush_error one_doc_session (store (add_document one_doc_session ?doc)) = None"
    by (simp add: one_doc_session_def)
  have h4: "process_document (\<lambda>s. s) ?doc scan_png = (?doc, Inl ?e)"
    by code_simp
  have h5: "flush_error one_doc_session
              (store (update_document (add_document one_doc_session ?doc)
                        (?doc\<lparr>status := FAILED, error_message := Some (error_str ?e)\<rparr>))) = None"
    by (simp add: one_doc_session_def)
  have st: "map status (documents (committed (snd (ingest_file one_doc_session 7 (\<lambda>s. s) ''doc-1''
                                               example_uuid scan_png None))))
       = [INDEXED, FAILED]"
    by code_simp
  have cs: "chunks (store one_doc_session) = [chunk_a, chunk_b]"
    by (simp add: one_doc_session_def example_db_def)
  show ?thesis
    using st cs ingest_file_processing_failure [OF h1 h2 h3 h4 h5, of 7 example_uuid]
    by simp
qed

text \<open>
  Another example: the text extraction of the second page of a PDF file of two pages
  raises. The error leaves the call, and the committed row has status \<open>FAILED\<close>, the message
  of the error and the page count 2 that \<open>_process_pdf\<close> had set before it read the pages;
  the chunk of the first page is not stored.
\<close>

lemma ingest_file_torn_pdf:
  "fst (ingest_file empty_session 7 (\<lambda>s. s) ''doc-1'' example_uuid torn_pdf None)
     = Inl (ExtractionError ''cannot read page'')
   \<and> documents (committed (snd (ingest_file empty_session 7 (\<lambda>s. s) ''doc-1'' example_uuid
                                   torn_pdf None)))
       = [(new_document ''doc-1'' torn_pdf None)
            \<lparr>page_count := 2, status := FAILED, error_message := Some ''cannot read page''\<rparr>]
   \<and> chunks (committed (snd (ingest_file empty_session 7 (\<lambda>s. s) ''doc-1'' example_uuid
                                torn_pdf None)))
       = []"
  by code_simp

text \<open>
  C8. After an error that is raised once the document row is created, the document should
  be left in state \<open>FAILED\<close> with its message, the error should reach the caller, and no
  chunk of the document should remain stored. The handler of \<open>ingest_file\<close> sets the status
  and the message and commits again, but it does not call \<open>db.rollback()\<close> first. When the
  error is that of the \<open>db.commit()\<close> of the \<open>try\<close> block, the only error that can come
  after the chunks were added, the session is deactivated and the commit of the handler
  raises \<open>PendingRollbackError\<close>. Here a text file of one chunk is ingested into a database
  that accepts the document row and refuses the chunk row: the processing raises nothing;
  the exception that leaves the call is the \<open>PendingRollbackError\<close> and not the error of
  the database; the durable tables are those from before the call, with no row for the
  document, so no row in state \<open>FAILED\<close>; and the session is left deactivated.
\<close>

theorem ingest_file_commit_failure:
  "map_sum id (map Chunk.content)
     (snd (process_document (\<lambda>s. s) (new_document ''doc-1'' notes_txt None) notes_txt))
     = Inr [''Some notes.'']
   \<and> fst (ingest_file full_disk_session 7 (\<lambda>s. s) ''doc-1'' example_uuid notes_txt None)
       = Inl (PendingRollbackError (DatabaseError ''database or disk is full''))
   \<and> documents (committed (snd (ingest_file full_disk_session 7 (\<lambda>s. s) ''doc-1'' example_uuid
                                   notes_txt None)))
       = [doc1]
   \<and> map Document.ident
         (documents (store (snd (ingest_file full_disk_session 7 (\<lambda>s. s) ''doc-1'' example_uuid
                                   notes_txt None))))
       = [''d1'']
   \<and> chunks (committed (snd (ingest_file full_disk_session 7 (\<lambda>s. s) ''doc-1'' example_uuid
                                notes_txt None)))
       = [chunk_a, chunk_b]
   \<and> inactive (snd (ingest_file full_disk_session 7 (\<lambda>s. s) ''doc-1'' example_uuid notes_txt
                       None))
       = Some (DatabaseError ''database or disk is full'')"
  by code_simp

end
